theory Spec2Isabelle
  imports Main "HOL-Library.AList"
begin

section \<open>Values, errors and the object store\<close>

text \<open>
  The module tree of \<^verbatim>\<open>src/dvitch/module.py\<close> is a graph of mutable Python objects.
  Objects live in a store and are named by their address; two names are the same
  object exactly when the addresses are equal.
\<close>

type_synonym ref = nat

text \<open>
  Exceptions are values. An \<^verbatim>\<open>AttributeError\<close> and an \<^verbatim>\<open>AssertionError\<close> carry
  which \<^verbatim>\<open>raise\<close> or \<^verbatim>\<open>assert\<close> of the source produced them, since the source
  tells its failures apart by message only. \<open>RecursionError\<close> is what the interpreter
  raises when the call stack is exhausted.
\<close>

datatype attribute_error =
    HasNoAttribute string     \<comment> \<open>\<^verbatim>\<open>... object has no attribute 'key'\<close>\<close>
  | CannotAssignBeforeInit    \<comment> \<open>\<^verbatim>\<open>Cannot assign ... before it has been initialized\<close>\<close>
  | NoSetter string           \<comment> \<open>assignment to a property without a setter\<close>

datatype assertion =
    NameNotNonEmptyStr        \<comment> \<open>\<^verbatim>\<open>assert name and isinstance(name, str)\<close>\<close>
  | NameHasDot                \<comment> \<open>\<^verbatim>\<open>assert "." not in name\<close>\<close>
  | ValueNotOfType            \<comment> \<open>\<^verbatim>\<open>assert isinstance(value, ...)\<close>\<close>
  | AlreadyExists             \<comment> \<open>\<^verbatim>\<open>assert name not in self._registry\<close>\<close>

datatype error =
    AttributeError attribute_error
  | TypeError
  | ValueError
  | AssertionError assertion
  | NotImplementedError
  | RecursionError
  | OutOfModel
  | OtherError string

fun is_AttributeError :: "error \<Rightarrow> bool" where
  "is_AttributeError (AttributeError _) = True"
| "is_AttributeError _ = False"

text \<open>
  The values an attribute can hold. \<open>'t\<close> is the tensor type (\<^verbatim>\<open>TTensorLike\<close>), which
  the source imports and never inspects. \<open>VRegistry n\<close> is the \<^verbatim>\<open>OrderedDict\<close> stored
  under the instance attribute \<open>n\<close>, \<open>VMethod n\<close> the bound method or class attribute
  \<open>n\<close>, \<open>VObject k\<close> any other Python object.
\<close>

datatype 't val =
    VNone
  | VTensor 't
  | VParameter ref
  | VModule ref
  | VBool bool
  | VStr string
  | VEmptyDict
  | VRegistry string
  | VMethod string
  | VObject nat

text \<open>
  Modelled from the spec: the class \<^verbatim>\<open>Parameter\<close> of \<^verbatim>\<open>dvitch/parameter.py\<close>, which is
  not part of the sources at hand. The spec's ParameterBox is a mutable box around a
  value; the source reads and writes the wrapped value as the attribute \<^verbatim>\<open>data\<close> and
  builds a box with \<^verbatim>\<open>Parameter(value)\<close>.
\<close>

record 't Parameter =
  data :: "'t val"

text \<open>
  The three registries of a component. Each is an \<^verbatim>\<open>OrderedDict\<close>: an association
  list in insertion order. The prefix \<open>u_\<close> stands for the leading underscore of the
  source's names. The entries are typed by what the class itself stores there: a
  parameter entry is a \<^verbatim>\<open>Parameter\<close> or \<^verbatim>\<open>None\<close>, a child entry a \<^verbatim>\<open>Module\<close> or
  \<^verbatim>\<open>None\<close>, a buffer entry a tensor or \<^verbatim>\<open>None\<close>.
\<close>

record 't registries =
  u_parameters :: "(string \<times> ref option) list"
  u_modules :: "(string \<times> ref option) list"
  u_buffers :: "(string \<times> 't option) list"

text \<open>
  A \<^verbatim>\<open>Module\<close> object. \<open>registries\<close> is \<open>None\<close> until \<^verbatim>\<open>Module.__init__\<close> has run:
  the instance attributes \<^verbatim>\<open>_parameters\<close>, \<^verbatim>\<open>_modules\<close> and \<^verbatim>\<open>_buffers\<close> do not
  exist before. \<open>dict\<close> is the rest of the instance dictionary (\<^verbatim>\<open>_training\<close> and
  whatever ordinary attribute was assigned). \<open>cls_name\<close> is \<^verbatim>\<open>type(self).__name__\<close>,
  and \<open>cls_attrs\<close> what the class of the object provides beyond the body of
  \<^verbatim>\<open>class Module\<close>: the attributes inherited from \<^verbatim>\<open>object\<close> and those a subclass
  adds.
\<close>

record 't module =
  cls_name :: string
  cls_attrs :: "(string \<times> 't val) list"
  registries :: "'t registries option"
  dict :: "(string \<times> 't val) list"

text \<open>
  The store: a module object and a parameter box at every address, and the address
  the next \<^verbatim>\<open>Parameter(...)\<close> is built at.
\<close>

record 't store =
  mods :: "ref \<Rightarrow> 't module"
  boxes :: "ref \<Rightarrow> 't Parameter"
  fresh :: ref

section \<open>Attribute read\<close>

text \<open>
  The names the body of \<^verbatim>\<open>class Module\<close> binds to functions and plain class
  attributes (the annotations without a value bind nothing), and its four properties.
\<close>

definition class_body :: "string list" where
  "class_body =
     [''T'', ''__repr__'', ''__str__'', ''__init__'', ''__setattr__'', ''__getattr__'',
      ''get_module'', ''get_parameter'', ''decompose_params'', ''decompose_buffs'',
      ''decompose_members'', ''add_module'', ''pop_module'', ''register_parameter'',
      ''deregister_parameter'', ''register_buffer'', ''deregister_buffer'',
      ''named_modules'', ''modules'', ''_named_members'', ''named_parameters'',
      ''parameters'', ''named_buffers'', ''buffers'', ''forward'', ''forward_np'',
      ''forward_nb'', ''forward_nm'', ''__forward__'', ''__call__'', ''__grad__'',
      ''grad'', ''train'']"

definition properties :: "string list" where
  "properties = [''classname'', ''name'', ''props'', ''training'']"

definition reserved :: "string list" where
  "reserved = [''_parameters'', ''_modules'', ''_buffers'']"

text \<open>
  The instance dictionary and the class, as \<^verbatim>\<open>object.__getattribute__\<close> searches them
  once no property has the name: the instance dictionary first, then the class.
\<close>

definition instance_dict :: "'t module \<Rightarrow> string \<Rightarrow> 't val option" where
  "instance_dict m key =
     (if registries m \<noteq> None \<and> key \<in> set reserved then Some (VRegistry key)
      else map_of (dict m) key)"

definition class_attr :: "'t module \<Rightarrow> string \<Rightarrow> 't val option" where
  "class_attr m key =
     (if key \<in> set class_body then Some (VMethod key) else map_of (cls_attrs m) key)"

fun param_val :: "ref option \<Rightarrow> 't val" where
  "param_val None = VNone"
| "param_val (Some p) = VParameter p"

fun module_val :: "ref option \<Rightarrow> 't val" where
  "module_val None = VNone"
| "module_val (Some c) = VModule c"

fun buffer_val :: "'t option \<Rightarrow> 't val" where
  "buffer_val None = VNone"
| "buffer_val (Some b) = VTensor b"

text \<open>
  \<open>getattr d m key\<close> is the expression \<^verbatim>\<open>m.key\<close> evaluated with \<open>d\<close> frames of call
  stack left. Python calls \<^verbatim>\<open>__getattr__\<close> only after the ordinary lookup
  (\<open>object_getattribute\<close>: properties, instance dictionary, class) has failed with an
  \<^verbatim>\<open>AttributeError\<close>. The functions below take as \<open>get\<close> the attribute read on
  \<^verbatim>\<open>self\<close> one frame further down, which is how \<^verbatim>\<open>__getattr__\<close> and the property
  \<^verbatim>\<open>training\<close> read attributes of their own object.
\<close>

text \<open>The builtin \<^verbatim>\<open>hasattr\<close>: an \<^verbatim>\<open>AttributeError\<close> is \<^verbatim>\<open>False\<close>, any other exception passes.\<close>

definition hasattr_by :: "(string \<Rightarrow> error + 'a) \<Rightarrow> string \<Rightarrow> error + bool" where
  "hasattr_by get key =
     (case get key of
        Inr v \<Rightarrow> Inr True
      | Inl e \<Rightarrow> if is_AttributeError e then Inr False else Inl e)"

definition object_getattribute ::
  "(string \<Rightarrow> error + 't val) \<Rightarrow> 't module \<Rightarrow> string \<Rightarrow> error + 't val" where
  "object_getattribute get m key =
     (if key = ''classname'' then Inr (VStr (cls_name m))
      else if key = ''name'' then Inr (VStr [])
      else if key = ''props'' then Inr VEmptyDict
      else if key = ''training'' then get ''_training''
      else case instance_dict m key of
        Some v \<Rightarrow> Inr v
      | None \<Rightarrow>
         (case class_attr m key of
            Some v \<Rightarrow> Inr v
          | None \<Rightarrow> Inl (AttributeError (HasNoAttribute key))))"

text \<open>
  The expressions \<^verbatim>\<open>self._parameters\<close>, \<^verbatim>\<open>self._modules\<close> and \<^verbatim>\<open>self._buffers\<close> where
  the source goes on to use the result as a dictionary. Only the registry that
  \<^verbatim>\<open>__init__\<close> stored is a dictionary the model has.
\<close>

definition as_registry ::
  "string \<Rightarrow> ('t registries \<Rightarrow> 'a) \<Rightarrow> (string \<Rightarrow> error + 't val) \<Rightarrow> 't module \<Rightarrow> error + 'a" where
  "as_registry n field get m =
     (case get n of
        Inl e \<Rightarrow> Inl e
      | Inr v \<Rightarrow>
         (case registries m of
            Some g \<Rightarrow> if v = VRegistry n then Inr (field g) else Inl OutOfModel
          | None \<Rightarrow> Inl OutOfModel))"

definition self_parameters_by ::
  "(string \<Rightarrow> error + 't val) \<Rightarrow> 't module \<Rightarrow> error + (string \<times> ref option) list" where
  "self_parameters_by = as_registry ''_parameters'' u_parameters"

definition self_modules_by ::
  "(string \<Rightarrow> error + 't val) \<Rightarrow> 't module \<Rightarrow> error + (string \<times> ref option) list" where
  "self_modules_by = as_registry ''_modules'' u_modules"

definition self_buffers_by ::
  "(string \<Rightarrow> error + 't val) \<Rightarrow> 't module \<Rightarrow> error + (string \<times> 't option) list" where
  "self_buffers_by = as_registry ''_buffers'' u_buffers"

text \<open>
  One arm of \<^verbatim>\<open>__getattr__\<close>: \<^verbatim>\<open>hasattr(self, "_r") and key in self._r\<close>, and then
  \<^verbatim>\<open>self._r[key]\<close>. \<open>Inr None\<close> says that the condition is false.
\<close>

definition guarded_lookup ::
  "error + bool \<Rightarrow> error + (string \<times> 'a) list \<Rightarrow> string \<Rightarrow> error + 'a option" where
  "guarded_lookup has reg key =
     (case has of
        Inl e \<Rightarrow> Inl e
      | Inr False \<Rightarrow> Inr None
      | Inr True \<Rightarrow> (case reg of Inl e \<Rightarrow> Inl e | Inr kvs \<Rightarrow> Inr (map_of kvs key)))"

definition dunder_getattr ::
  "(string \<Rightarrow> error + 't val) \<Rightarrow> 't module \<Rightarrow> string \<Rightarrow> error + 't val" where
  "dunder_getattr get m key =
     (case guarded_lookup (hasattr_by get ''_parameters'') (self_parameters_by get m) key of
        Inl e \<Rightarrow> Inl e
      | Inr (Some p) \<Rightarrow> Inr (param_val p)
      | Inr None \<Rightarrow>
     (case guarded_lookup (hasattr_by get ''_modules'') (self_modules_by get m) key of
        Inl e \<Rightarrow> Inl e
      | Inr (Some c) \<Rightarrow> Inr (module_val c)
      | Inr None \<Rightarrow>
     (case guarded_lookup (hasattr_by get ''_buffers'') (self_buffers_by get m) key of
        Inl e \<Rightarrow> Inl e
      | Inr (Some b) \<Rightarrow> Inr (buffer_val b)
      | Inr None \<Rightarrow> Inl (AttributeError (HasNoAttribute key)))))"

primrec getattr :: "nat \<Rightarrow> 't module \<Rightarrow> string \<Rightarrow> error + 't val" where
  "getattr 0 m key = Inl RecursionError"
| "getattr (Suc d) m key =
     (case object_getattribute (getattr d m) m key of
        Inr v \<Rightarrow> Inr v
      | Inl e \<Rightarrow> if is_AttributeError e then dunder_getattr (getattr d m) m key else Inl e)"

text \<open>The same expressions inside a method body that has \<open>d\<close> frames left.\<close>

definition hasattr :: "nat \<Rightarrow> 't module \<Rightarrow> string \<Rightarrow> error + bool" where
  "hasattr d m key = hasattr_by (getattr d m) key"

definition self_parameters :: "nat \<Rightarrow> 't module \<Rightarrow> error + (string \<times> ref option) list" where
  "self_parameters d m = self_parameters_by (getattr d m) m"

definition self_modules :: "nat \<Rightarrow> 't module \<Rightarrow> error + (string \<times> ref option) list" where
  "self_modules d m = self_modules_by (getattr d m) m"

definition self_buffers :: "nat \<Rightarrow> 't module \<Rightarrow> error + (string \<times> 't option) list" where
  "self_buffers d m = self_buffers_by (getattr d m) m"

section \<open>Construction and registration\<close>

text \<open>
  A command returns the store it leaves behind together with the exception it raised,
  if any: an exception does not undo what was done before it.
\<close>

type_synonym 't command = "'t store \<Rightarrow> error option \<times> 't store"

definition update_module :: "ref \<Rightarrow> ('t module \<Rightarrow> 't module) \<Rightarrow> 't store \<Rightarrow> 't store" where
  "update_module r f s = s\<lparr>mods := (mods s)(r := f (mods s r))\<rparr>"

definition update_registries ::
  "ref \<Rightarrow> ('t registries \<Rightarrow> 't registries) \<Rightarrow> 't store \<Rightarrow> 't store" where
  "update_registries r f s =
     update_module r (\<lambda>m. m\<lparr>registries := map_option f (registries m)\<rparr>) s"

text \<open>
  \<^verbatim>\<open>Module.__init__\<close> with \<open>nargs\<close> positional and \<open>nkwargs\<close> keyword arguments. It
  writes through \<^verbatim>\<open>object.__setattr__\<close>, past the interception of \<^verbatim>\<open>__setattr__\<close>.
\<close>

definition dunder_init :: "nat \<Rightarrow> nat \<Rightarrow> ref \<Rightarrow> 't command" where
  "dunder_init nargs nkwargs r s =
     (if 0 < nargs then (Some TypeError, s)
      else if 0 < nkwargs then (Some TypeError, s)
      else (None, update_module r
              (\<lambda>m. m\<lparr>registries := Some \<lparr>u_parameters = [], u_modules = [], u_buffers = []\<rparr>,
                     dict := AList.update ''_training'' (VBool False) (dict m)\<rparr>) s))"

text \<open>
  \<^verbatim>\<open>self._r[name] = value\<close>: the attribute is read, then the entry is set. An existing
  key keeps its place, a new one goes last.
\<close>

definition setitem_parameters :: "nat \<Rightarrow> ref \<Rightarrow> string \<Rightarrow> ref option \<Rightarrow> 't command" where
  "setitem_parameters d r name p s =
     (case self_parameters d (mods s r) of
        Inl e \<Rightarrow> (Some e, s)
      | Inr ps \<Rightarrow>
          (None, update_registries r (\<lambda>g. g\<lparr>u_parameters := AList.update name p ps\<rparr>) s))"

definition setitem_modules :: "nat \<Rightarrow> ref \<Rightarrow> string \<Rightarrow> ref option \<Rightarrow> 't command" where
  "setitem_modules d r name c s =
     (case self_modules d (mods s r) of
        Inl e \<Rightarrow> (Some e, s)
      | Inr cs \<Rightarrow>
          (None, update_registries r (\<lambda>g. g\<lparr>u_modules := AList.update name c cs\<rparr>) s))"

definition setitem_buffers :: "nat \<Rightarrow> ref \<Rightarrow> string \<Rightarrow> 't option \<Rightarrow> 't command" where
  "setitem_buffers d r name b s =
     (case self_buffers d (mods s r) of
        Inl e \<Rightarrow> (Some e, s)
      | Inr bs \<Rightarrow>
          (None, update_registries r (\<lambda>g. g\<lparr>u_buffers := AList.update name b bs\<rparr>) s))"

text \<open>
  \<^verbatim>\<open>if not isinstance(parameter, Parameter) and parameter is not None:
  parameter = Parameter(parameter)\<close>: a bare value gets a new box.
\<close>

fun wrap :: "'t val \<Rightarrow> 't store \<Rightarrow> ref option \<times> 't store" where
  "wrap (VParameter q) s = (Some q, s)"
| "wrap VNone s = (None, s)"
| "wrap v s =
     (Some (fresh s), s\<lparr>boxes := (boxes s)(fresh s := \<lparr>data = v\<rparr>), fresh := Suc (fresh s)\<rparr>)"

text \<open>
  \<open>ParameterLike\<close> is the test \<^verbatim>\<open>isinstance(v, ParameterLike)\<close>. The type comes from
  \<^verbatim>\<open>dvitch/parameter.py\<close>, which is not at hand, so the test is a parameter.
\<close>

definition register_parameter ::
  "('t val \<Rightarrow> bool) \<Rightarrow> nat \<Rightarrow> ref \<Rightarrow> string \<Rightarrow> 't val \<Rightarrow> 't command" where
  "register_parameter ParameterLike d r name parameter s =
     (if name = [] then (Some (AssertionError NameNotNonEmptyStr), s)
      else if CHR ''.'' \<in> set name then (Some (AssertionError NameHasDot), s)
      else if \<not> ParameterLike parameter then (Some (AssertionError ValueNotOfType), s)
      else case self_parameters d (mods s r) of
        Inl e \<Rightarrow> (Some e, s)
      | Inr ps \<Rightarrow>
          if name \<in> fst ` set ps then (Some (AssertionError AlreadyExists), s)
          else (case wrap parameter s of (p, s1) \<Rightarrow>
            (case hasattr d (mods s1 r) ''_parameters'' of
               Inl e \<Rightarrow> (Some e, s1)
             | Inr False \<Rightarrow> (Some (AttributeError CannotAssignBeforeInit), s1)
             | Inr True \<Rightarrow> setitem_parameters d r name p s1)))"

text \<open>
  \<^verbatim>\<open>module is None or isinstance(module, Module)\<close> and
  \<^verbatim>\<open>buffer is None or isinstance(buffer, TTensorLike)\<close>, with the registry entry the
  value becomes.
\<close>

fun module_entry :: "'t val \<Rightarrow> ref option option" where
  "module_entry VNone = Some None"
| "module_entry (VModule c) = Some (Some c)"
| "module_entry _ = None"

fun buffer_entry :: "'t val \<Rightarrow> 't option option" where
  "buffer_entry VNone = Some None"
| "buffer_entry (VTensor t) = Some (Some t)"
| "buffer_entry _ = None"

definition add_module :: "nat \<Rightarrow> ref \<Rightarrow> string \<Rightarrow> 't val \<Rightarrow> 't command" where
  "add_module d r name module s =
     (if name = [] then (Some (AssertionError NameNotNonEmptyStr), s)
      else if CHR ''.'' \<in> set name then (Some (AssertionError NameHasDot), s)
      else case module_entry module of
        None \<Rightarrow> (Some (AssertionError ValueNotOfType), s)
      | Some c \<Rightarrow>
         (case self_modules d (mods s r) of
            Inl e \<Rightarrow> (Some e, s)
          | Inr cs \<Rightarrow>
              if name \<in> fst ` set cs then (Some (AssertionError AlreadyExists), s)
              else (case hasattr d (mods s r) ''_modules'' of
                Inl e \<Rightarrow> (Some e, s)
              | Inr False \<Rightarrow> (Some (AttributeError CannotAssignBeforeInit), s)
              | Inr True \<Rightarrow> setitem_modules d r name c s)))"

definition register_buffer :: "nat \<Rightarrow> ref \<Rightarrow> string \<Rightarrow> 't val \<Rightarrow> 't command" where
  "register_buffer d r name buffer s =
     (if name = [] then (Some (AssertionError NameNotNonEmptyStr), s)
      else if CHR ''.'' \<in> set name then (Some (AssertionError NameHasDot), s)
      else case buffer_entry buffer of
        None \<Rightarrow> (Some (AssertionError ValueNotOfType), s)
      | Some b \<Rightarrow>
         (case self_buffers d (mods s r) of
            Inl e \<Rightarrow> (Some e, s)
          | Inr bs \<Rightarrow>
              if name \<in> fst ` set bs then (Some (AssertionError AlreadyExists), s)
              else (case hasattr d (mods s r) ''_buffers'' of
                Inl e \<Rightarrow> (Some e, s)
              | Inr False \<Rightarrow> (Some (AttributeError CannotAssignBeforeInit), s)
              | Inr True \<Rightarrow> setitem_buffers d r name b s)))"

section \<open>Tree traversal\<close>

text \<open>
  A generator is what it yields, in order, and the exception that ended it, if one
  did: the consumer has seen every yielded item before the exception reaches it.
\<close>

type_synonym 'a generator = "'a list \<times> error option"

fun gen_append :: "'a list \<Rightarrow> 'a generator \<Rightarrow> 'a generator" where
  "gen_append ys (zs, e) = (ys @ zs, e)"

text \<open>A \<^verbatim>\<open>for\<close> loop whose body yields: the first exception of a body ends the loop.\<close>

fun for_each :: "'a list \<Rightarrow> ('a \<Rightarrow> 'b generator) \<Rightarrow> 'b generator" where
  "for_each [] body = ([], None)"
| "for_each (x # xs) body =
     (case body x of
        (ys, Some e) \<Rightarrow> (ys, Some e)
      | (ys, None) \<Rightarrow> gen_append ys (for_each xs body))"

text \<open>A \<^verbatim>\<open>for\<close> loop over a generator: the generator's own exception comes last.\<close>

fun for_each_of :: "'a generator \<Rightarrow> ('a \<Rightarrow> 'b generator) \<Rightarrow> 'b generator" where
  "for_each_of (xs, e) body =
     (case for_each xs body of
        (zs, Some e') \<Rightarrow> (zs, Some e')
      | (zs, None) \<Rightarrow> (zs, e))"

text \<open>The path of an entry under a prefix: the two joined by a dot, or the entry's key alone under the empty prefix.\<close>

definition join_path :: "string \<Rightarrow> string \<Rightarrow> string" where
  "join_path prefix key = (if prefix \<noteq> [] then prefix @ ''.'' @ key else key)"

primrec named_modules ::
  "nat \<Rightarrow> 't store \<Rightarrow> ref \<Rightarrow> string \<Rightarrow> bool \<Rightarrow> bool \<Rightarrow> (string \<times> ref option) generator" where
  "named_modules 0 s r prefix include_self include_children = ([], Some RecursionError)"
| "named_modules (Suc d) s r prefix include_self include_children =
     gen_append (if include_self then [(prefix, Some r)] else [])
       (case self_modules d (mods s r) of
          Inl e \<Rightarrow> ([], Some e)
        | Inr cs \<Rightarrow>
            for_each cs (\<lambda>(key, module).
              let module_prefix = join_path prefix key in
              if include_children then
                (case module of
                   None \<Rightarrow> ([], Some (AttributeError (HasNoAttribute ''named_modules'')))
                 | Some c \<Rightarrow> named_modules d s c module_prefix True True)
              else ([(module_prefix, module)], None)))"

definition modules :: "nat \<Rightarrow> 't store \<Rightarrow> ref \<Rightarrow> bool \<Rightarrow> ref option generator" where
  "modules d s r include_children =
     for_each_of (named_modules d s r [] False include_children) (\<lambda>(_, module). ([module], None))"

text \<open>
  \<open>get_members\<close> is \<^verbatim>\<open>get_members_fn\<close>; the commented-out de-duplication of the
  source does nothing, and neither does \<^verbatim>\<open>remove_duplicates\<close>.
\<close>

definition named_members ::
  "nat \<Rightarrow> 't store \<Rightarrow> ref \<Rightarrow> (ref option \<Rightarrow> error + (string \<times> 'a) list) \<Rightarrow> string \<Rightarrow> bool
     \<Rightarrow> (string \<times> 'a) generator" where
  "named_members d s r get_members prefix recursive =
     for_each_of (named_modules d s r prefix True recursive) (\<lambda>(module_prefix, module).
       case get_members module of
         Inl e \<Rightarrow> ([], Some e)
       | Inr members \<Rightarrow>
           for_each members (\<lambda>(key, member). ([(join_path module_prefix key, member)], None)))"

text \<open>\<^verbatim>\<open>lambda module: getattr(module, "_parameters").items()\<close>, and the same for buffers.\<close>

definition parameters_items :: "nat \<Rightarrow> 't store \<Rightarrow> ref option \<Rightarrow> error + (string \<times> ref option) list" where
  "parameters_items d s module =
     (case module of
        None \<Rightarrow> Inl (AttributeError (HasNoAttribute ''_parameters''))
      | Some c \<Rightarrow> self_parameters d (mods s c))"

definition buffers_items :: "nat \<Rightarrow> 't store \<Rightarrow> ref option \<Rightarrow> error + (string \<times> 't option) list" where
  "buffers_items d s module =
     (case module of
        None \<Rightarrow> Inl (AttributeError (HasNoAttribute ''_buffers''))
      | Some c \<Rightarrow> self_buffers d (mods s c))"

definition named_parameters ::
  "nat \<Rightarrow> 't store \<Rightarrow> ref \<Rightarrow> string \<Rightarrow> bool \<Rightarrow> (string \<times> ref option) generator" where
  "named_parameters d s r prefix recursive =
     named_members d s r (parameters_items d s) prefix recursive"

definition named_buffers ::
  "nat \<Rightarrow> 't store \<Rightarrow> ref \<Rightarrow> string \<Rightarrow> bool \<Rightarrow> (string \<times> 't option) generator" where
  "named_buffers d s r prefix recursive =
     named_members d s r (buffers_items d s) prefix recursive"

section \<open>Attribute assignment\<close>

text \<open>
  \<^verbatim>\<open>super().__setattr__(key, value)\<close>, the assignment of \<^verbatim>\<open>object\<close>: a property of
  the class takes the value, otherwise it goes into the instance dictionary. Of the
  four properties only \<^verbatim>\<open>training\<close> has a setter (\<open>training_fset\<close>). Overwriting one
  of the three registries with an ordinary value leaves an object without that
  registry, which the model does not have.
\<close>

definition object_setattr ::
  "(ref \<Rightarrow> 't val \<Rightarrow> 't command) \<Rightarrow> ref \<Rightarrow> string \<Rightarrow> 't val \<Rightarrow> 't command" where
  "object_setattr training_fset r key v s =
     (if key = ''training'' then training_fset r v s
      else if key \<in> {''classname'', ''name'', ''props''} then
        (Some (AttributeError (NoSetter key)), s)
      else if key \<in> set reserved then (Some OutOfModel, s)
      else (None, update_module r (\<lambda>m. m\<lparr>dict := AList.update key v (dict m)\<rparr>) s))"

text \<open>\<^verbatim>\<open>self._parameters[key].data = value.data\<close>, for a \<^verbatim>\<open>value\<close> that is the box \<open>q\<close>.\<close>

definition assign_data :: "(string \<times> ref option) list \<Rightarrow> string \<Rightarrow> ref \<Rightarrow> 't command" where
  "assign_data ps key q s =
     (case map_of ps key of
        Some (Some p) \<Rightarrow>
          (None, s\<lparr>boxes := (boxes s)(p := (boxes s p)\<lparr>data := data (boxes s q)\<rparr>)\<rparr>)
      | _ \<Rightarrow> (Some (AttributeError (HasNoAttribute ''data'')), s))"

text \<open>The body of \<^verbatim>\<open>__setattr__\<close>, with \<open>d\<close> frames left.\<close>

definition dunder_setattr_body ::
  "('t val \<Rightarrow> bool) \<Rightarrow> (ref \<Rightarrow> 't val \<Rightarrow> 't command) \<Rightarrow> nat \<Rightarrow> ref \<Rightarrow> string \<Rightarrow> 't val
     \<Rightarrow> 't command" where
  "dunder_setattr_body ParameterLike training_fset d r key v s =
     (case v of
        VParameter q \<Rightarrow>
          (case self_parameters d (mods s r) of
             Inl e \<Rightarrow> (Some e, s)
           | Inr ps \<Rightarrow>
               if key \<in> fst ` set ps then assign_data ps key q s
               else register_parameter ParameterLike d r key v s)
      | VModule c \<Rightarrow> add_module d r key v s
      | _ \<Rightarrow>
          (case self_buffers d (mods s r) of
             Inl e \<Rightarrow> (Some e, s)
           | Inr bs \<Rightarrow>
               if key \<in> fst ` set bs then
                 (case buffer_entry v of
                    Some b \<Rightarrow> setitem_buffers d r key b s
                  | None \<Rightarrow> (Some TypeError, s))
               else object_setattr training_fset r key v s))"

text \<open>
  The setter of the property \<^verbatim>\<open>training\<close>: it assigns \<^verbatim>\<open>self._training\<close> and then
  \<^verbatim>\<open>m.training\<close> for every \<^verbatim>\<open>m\<close> of \<^verbatim>\<open>self.modules(include_children=False)\<close>.
  \<open>assign\<close> is the attribute assignment one frame further down.
\<close>

fun cascade :: "(ref \<Rightarrow> string \<Rightarrow> 't val \<Rightarrow> 't command) \<Rightarrow> 't val \<Rightarrow> ref option list \<Rightarrow> 't command" where
  "cascade assign mode [] s = (None, s)"
| "cascade assign mode (None # ms) s = (Some (AttributeError (HasNoAttribute ''training'')), s)"
| "cascade assign mode (Some c # ms) s =
     (case assign c ''training'' mode s of
        (Some e, s1) \<Rightarrow> (Some e, s1)
      | (None, s1) \<Rightarrow> cascade assign mode ms s1)"

definition training_setter ::
  "(ref \<Rightarrow> string \<Rightarrow> 't val \<Rightarrow> 't command) \<Rightarrow> nat \<Rightarrow> ref \<Rightarrow> 't val \<Rightarrow> 't command" where
  "training_setter assign d r mode s =
     (case assign r ''_training'' mode s of
        (Some e, s1) \<Rightarrow> (Some e, s1)
      | (None, s1) \<Rightarrow>
          (case modules d s1 r False of
             (ms, err) \<Rightarrow>
               (case cascade assign mode ms s1 of
                  (Some e, s2) \<Rightarrow> (Some e, s2)
                | (None, s2) \<Rightarrow> (err, s2))))"

primrec dunder_setattr ::
  "('t val \<Rightarrow> bool) \<Rightarrow> nat \<Rightarrow> ref \<Rightarrow> string \<Rightarrow> 't val \<Rightarrow> 't command" where
  "dunder_setattr ParameterLike 0 r key v s = (Some RecursionError, s)"
| "dunder_setattr ParameterLike (Suc d) r key v s =
     dunder_setattr_body ParameterLike
       (training_setter (dunder_setattr ParameterLike d) d) d r key v s"

definition train :: "('t val \<Rightarrow> bool) \<Rightarrow> nat \<Rightarrow> ref \<Rightarrow> 't val \<Rightarrow> 't command" where
  "train ParameterLike d r mode s = dunder_setattr ParameterLike d r ''training'' mode s"

section \<open>Path resolver\<close>

text \<open>\<^verbatim>\<open>str.split(sep)\<close> and \<^verbatim>\<open>str.rsplit(sep, 1)\<close> for a separator of one character.\<close>

fun split_on :: "char \<Rightarrow> string \<Rightarrow> string list" where
  "split_on c [] = [[]]"
| "split_on c (x # xs) =
     (if x = c then [] # split_on c xs
      else case split_on c xs of
        w # ws \<Rightarrow> (x # w) # ws
      | [] \<Rightarrow> [[x]])"

definition rsplit1 :: "char \<Rightarrow> string \<Rightarrow> string list" where
  "rsplit1 c xs =
     (case dropWhile (\<lambda>x. x \<noteq> c) (rev xs) of
        [] \<Rightarrow> [xs]
      | _ # front \<Rightarrow> [rev front, rev (takeWhile (\<lambda>x. x \<noteq> c) (rev xs))])"

fun walk :: "nat \<Rightarrow> 't store \<Rightarrow> ref \<Rightarrow> string list \<Rightarrow> error + ref" where
  "walk d s atom [] = Inr atom"
| "walk d s atom (bar # bars) =
     (case hasattr d (mods s atom) bar of
        Inl e \<Rightarrow> Inl e
      | Inr False \<Rightarrow> Inl (AttributeError (HasNoAttribute bar))
      | Inr True \<Rightarrow>
         (case getattr d (mods s atom) bar of
            Inl e \<Rightarrow> Inl e
          | Inr (VModule c) \<Rightarrow> walk d s c bars
          | Inr _ \<Rightarrow> Inl TypeError))"

definition get_module :: "nat \<Rightarrow> 't store \<Rightarrow> ref \<Rightarrow> string \<Rightarrow> error + ref" where
  "get_module d s r ladder = walk d s r (split_on CHR ''.'' ladder)"

text \<open>
  The first line of \<^verbatim>\<open>get_parameter\<close> unpacks the result of \<^verbatim>\<open>rsplit\<close> into two names,
  which raises \<^verbatim>\<open>ValueError\<close> unless there are exactly two parts.
\<close>

definition get_parameter ::
  "('t val \<Rightarrow> bool) \<Rightarrow> nat \<Rightarrow> 't store \<Rightarrow> ref \<Rightarrow> string \<Rightarrow> error + 't val" where
  "get_parameter ParameterLike d s r ladder =
     (case rsplit1 CHR ''.'' ladder of
        [ladder', param_name] \<Rightarrow>
          (case get_module d s r ladder' of
             Inl e \<Rightarrow> Inl e
           | Inr module \<Rightarrow>
              (case hasattr d (mods s module) param_name of
                 Inl e \<Rightarrow> Inl e
               | Inr False \<Rightarrow> Inl (AttributeError (HasNoAttribute param_name))
               | Inr True \<Rightarrow>
                  (case getattr d (mods s module) param_name of
                     Inl e \<Rightarrow> Inl e
                   | Inr param \<Rightarrow>
                       if ParameterLike param then Inr param else Inl TypeError)))
      | _ \<Rightarrow> Inl ValueError)"

section \<open>Functional dispatch\<close>

text \<open>
  The three overridable tiers are parameters of \<open>forward\<close>; the ones \<^verbatim>\<open>class Module\<close>
  itself defines raise \<^verbatim>\<open>NotImplementedError\<close>.
\<close>

type_synonym 't params = "(string \<times> ref option) list"
type_synonym 't buffs = "(string \<times> 't option) list"

definition forward ::
  "('t params \<Rightarrow> 'i \<Rightarrow> error + 'o) \<Rightarrow> ('t buffs \<Rightarrow> 'i \<Rightarrow> error + 'o) \<Rightarrow> ('i \<Rightarrow> error + 'o)
     \<Rightarrow> 't params \<Rightarrow> 't buffs \<Rightarrow> 'i \<Rightarrow> error + 'o" where
  "forward forward_nb forward_np forward_nm params buffs inputs =
     (case forward_nb params inputs of
        Inr y \<Rightarrow> Inr y
      | Inl e \<Rightarrow>
     if e \<noteq> NotImplementedError then Inl e else
     (case forward_np buffs inputs of
        Inr y \<Rightarrow> Inr y
      | Inl e \<Rightarrow>
     if e \<noteq> NotImplementedError then Inl e else
     (case forward_nm inputs of
        Inr y \<Rightarrow> Inr y
      | Inl e \<Rightarrow>
     if e \<noteq> NotImplementedError then Inl e else Inl NotImplementedError)))"

definition forward_nb_default :: "'t params \<Rightarrow> 'i \<Rightarrow> error + 'o" where
  "forward_nb_default params inputs = Inl NotImplementedError"

definition forward_np_default :: "'t buffs \<Rightarrow> 'i \<Rightarrow> error + 'o" where
  "forward_np_default buffs inputs = Inl NotImplementedError"

definition forward_nm_default :: "'i \<Rightarrow> error + 'o" where
  "forward_nm_default inputs = Inl NotImplementedError"

text \<open>
  \<^verbatim>\<open>dict(pairs)\<close>: a later pair replaces the value of an equal earlier key, which keeps
  its place; an exception of the generator is the exception of the call.
\<close>

definition py_dict :: "(string \<times> 'a) list \<Rightarrow> (string \<times> 'a) list" where
  "py_dict kvs = foldl (\<lambda>acc (k, v). AList.update k v acc) [] kvs"

definition dict_of :: "(string \<times> 'a) generator \<Rightarrow> error + (string \<times> 'a) list" where
  "dict_of g = (case g of (kvs, None) \<Rightarrow> Inr (py_dict kvs) | (kvs, Some e) \<Rightarrow> Inl e)"

text \<open>
  \<^verbatim>\<open>__forward__\<close> is \<^verbatim>\<open>forward\<close> under \<^verbatim>\<open>jax.jit\<close> with \<^verbatim>\<open>self\<close> static. The compiler
  is a library the repository imports: it is the parameter \<open>jit\<close>.
\<close>

definition dunder_forward ::
  "(('t params \<Rightarrow> 't buffs \<Rightarrow> 'i \<Rightarrow> error + 'o) \<Rightarrow> 't params \<Rightarrow> 't buffs \<Rightarrow> 'i \<Rightarrow> error + 'o)
     \<Rightarrow> ('t params \<Rightarrow> 'i \<Rightarrow> error + 'o) \<Rightarrow> ('t buffs \<Rightarrow> 'i \<Rightarrow> error + 'o) \<Rightarrow> ('i \<Rightarrow> error + 'o)
     \<Rightarrow> 't params \<Rightarrow> 't buffs \<Rightarrow> 'i \<Rightarrow> error + 'o" where
  "dunder_forward jit forward_nb forward_np forward_nm params buffs inputs =
     jit (forward forward_nb forward_np forward_nm) params buffs inputs"

definition dunder_call ::
  "(('t params \<Rightarrow> 't buffs \<Rightarrow> 'i \<Rightarrow> error + 'o) \<Rightarrow> 't params \<Rightarrow> 't buffs \<Rightarrow> 'i \<Rightarrow> error + 'o)
     \<Rightarrow> ('t params \<Rightarrow> 'i \<Rightarrow> error + 'o) \<Rightarrow> ('t buffs \<Rightarrow> 'i \<Rightarrow> error + 'o) \<Rightarrow> ('i \<Rightarrow> error + 'o)
     \<Rightarrow> nat \<Rightarrow> 't store \<Rightarrow> ref \<Rightarrow> 'i \<Rightarrow> error + 'o" where
  "dunder_call jit forward_nb forward_np forward_nm d s r inputs =
     (case dict_of (named_parameters d s r [] True) of
        Inl e \<Rightarrow> Inl e
      | Inr params \<Rightarrow>
         (case dict_of (named_buffers d s r [] True) of
            Inl e \<Rightarrow> Inl e
          | Inr buffs \<Rightarrow>
              dunder_forward jit forward_nb forward_np forward_nm params buffs inputs))"

section \<open>A concrete tree\<close>

text \<open>
  The scenario of the specification: a root \<^verbatim>\<open>R\<close> at address 0 with the parameter
  \<^verbatim>\<open>w\<close> (the box at address 0, holding 2) and the child \<^verbatim>\<open>C\<close> at address 1 with
  the parameter \<^verbatim>\<open>w2\<close> (the box at address 1, holding 3). Every other address holds
  an object on which \<^verbatim>\<open>__init__\<close> has not run.
\<close>

definition blank :: "int module" where
  "blank = \<lparr>cls_name = ''Module'', cls_attrs = [], registries = None, dict = []\<rparr>"

definition module_R :: "int module" where
  "module_R =
     \<lparr>cls_name = ''Module'', cls_attrs = [],
      registries = Some \<lparr>u_parameters = [(''w'', Some 0)], u_modules = [(''C'', Some 1)],
                         u_buffers = []\<rparr>,
      dict = [(''_training'', VBool False)]\<rparr>"

definition module_C :: "int module" where
  "module_C =
     \<lparr>cls_name = ''Module'', cls_attrs = [],
      registries = Some \<lparr>u_parameters = [(''w2'', Some 1)], u_modules = [], u_buffers = []\<rparr>,
      dict = [(''_training'', VBool False)]\<rparr>"

definition scenario :: "int store" where
  "scenario =
     \<lparr>mods = (\<lambda>_. blank)(0 := module_R, 1 := module_C),
      boxes = (\<lambda>_. \<lparr>data = VNone\<rparr>)(0 := \<lparr>data = VTensor 2\<rparr>, 1 := \<lparr>data = VTensor 3\<rparr>),
      fresh = 2\<rparr>"

text \<open>A \<^verbatim>\<open>ParameterLike\<close> made of the boxes, the bare tensors and \<^verbatim>\<open>None\<close>.\<close>

fun parameter_like :: "int val \<Rightarrow> bool" where
  "parameter_like VNone = True"
| "parameter_like (VTensor t) = True"
| "parameter_like (VParameter p) = True"
| "parameter_like v = False"

text \<open>
  The root of the scenario after \<^verbatim>\<open>R.x = 5\<close> for an ordinary object and then
  \<^verbatim>\<open>R.register_parameter("x", 9)\<close>, and the root after
  \<^verbatim>\<open>R.register_parameter("name", 9)\<close>.
\<close>

definition shadowed :: "int store" where
  "shadowed =
     snd (register_parameter parameter_like 3 0 ''x'' (VTensor 9)
       (snd (dunder_setattr parameter_like 3 0 ''x'' (VObject 5) scenario)))"

definition named_root :: "int store" where
  "named_root = snd (register_parameter parameter_like 3 0 ''name'' (VTensor 9) scenario)"

section \<open>The order of an attribute read, stated directly\<close>

text \<open>
  What the three arms of \<^verbatim>\<open>__getattr__\<close> amount to on an initialised component: the
  parameter registry, then the child registry, then the buffer registry, and
  \<^verbatim>\<open>AttributeError\<close> when none has the name.
\<close>

definition registry_chain :: "'t registries \<Rightarrow> string \<Rightarrow> error + 't val" where
  "registry_chain g key =
     (case map_of (u_parameters g) key of
        Some p \<Rightarrow> Inr (param_val p)
      | None \<Rightarrow>
     (case map_of (u_modules g) key of
        Some c \<Rightarrow> Inr (module_val c)
      | None \<Rightarrow>
     (case map_of (u_buffers g) key of
        Some b \<Rightarrow> Inr (buffer_val b)
      | None \<Rightarrow> Inl (AttributeError (HasNoAttribute key)))))"

text \<open>
  The ordinary attributes of a component other than the property \<^verbatim>\<open>training\<close>: the
  three properties without state, the instance dictionary, the class.
\<close>

definition ordinary_attribute :: "'t module \<Rightarrow> string \<Rightarrow> 't val option" where
  "ordinary_attribute m key =
     (if key = ''classname'' then Some (VStr (cls_name m))
      else if key = ''name'' then Some (VStr [])
      else if key = ''props'' then Some VEmptyDict
      else case instance_dict m key of Some v \<Rightarrow> Some v | None \<Rightarrow> class_attr m key)"

text \<open>The exceptions an attribute read can end with.\<close>

fun raised_by_getattr :: "error \<Rightarrow> bool" where
  "raised_by_getattr RecursionError = True"
| "raised_by_getattr OutOfModel = True"
| "raised_by_getattr (AttributeError (HasNoAttribute k)) = True"
| "raised_by_getattr e = False"

section \<open>Component trees\<close>

text \<open>
  The shape of a component tree, apart from the store: a component's address and
  its children under their names, in registration order.
\<close>

datatype mtree = MNode ref "(string \<times> mtree) list"

fun root :: "mtree \<Rightarrow> ref" where
  "root (MNode r ts) = r"

fun refs :: "mtree \<Rightarrow> ref list" where
  "refs (MNode r ts) = r # concat (map (\<lambda>(k, t). refs t) ts)"

fun height :: "mtree \<Rightarrow> nat" where
  "height (MNode r ts) = Suc (foldr max (map (\<lambda>(k, t). height t) ts) 0)"

text \<open>The paths of a tree as lists of names, each the names from the root down.\<close>

fun name_lists :: "mtree \<Rightarrow> string list list" where
  "name_lists (MNode r ts) = [] # concat (map (\<lambda>(k, t). map ((#) k) (name_lists t)) ts)"

text \<open>
  The enumeration as the specification words it: the pair of the prefix and the root
  first, then for each direct child in registration order the enumeration of the
  child under its qualified path.
\<close>

fun enumerateComponents :: "string \<Rightarrow> mtree \<Rightarrow> (string \<times> ref option) list" where
  "enumerateComponents prefix (MNode r ts) =
     (prefix, Some r) # concat (map (\<lambda>(k, t). enumerateComponents (join_path prefix k) t) ts)"

text \<open>
  \<open>shape s t\<close>: in the store \<open>s\<close> the component at the root of \<open>t\<close> is initialised
  and its child registry holds, in order, the roots of the subtrees of \<open>t\<close> under
  their names, and so on down the tree. \<open>valid_names\<close> is what \<^verbatim>\<open>add_module\<close> and the
  dictionary guarantee of the names; a tree whose addresses are distinct has neither
  a cycle nor a shared component.
\<close>

fun shape :: "'t store \<Rightarrow> mtree \<Rightarrow> bool" where
  "shape s (MNode r ts) =
     (case registries (mods s r) of
        None \<Rightarrow> False
      | Some g \<Rightarrow>
          u_modules g = map (\<lambda>(k, t). (k, Some (root t))) ts \<and> (\<forall>(k, t) \<in> set ts. shape s t))"

fun valid_names :: "mtree \<Rightarrow> bool" where
  "valid_names (MNode r ts) =
     (distinct (map fst ts)
      \<and> (\<forall>(k, t) \<in> set ts. k \<noteq> [] \<and> CHR ''.'' \<notin> set k \<and> valid_names t))"

definition component_tree :: "'t store \<Rightarrow> mtree \<Rightarrow> bool" where
  "component_tree s t \<longleftrightarrow> shape s t \<and> valid_names t \<and> distinct (refs t)"

text \<open>The tree of the scenario.\<close>

definition scenario_tree :: mtree where
  "scenario_tree = MNode 0 [(''C'', MNode 1 [])]"

text \<open>
  Two components initialised by \<^verbatim>\<open>__init__\<close>, and then a root built from them by
  \<^verbatim>\<open>R.add_module("D", None)\<close> followed by \<^verbatim>\<open>R.add_module("C", C)\<close>: a tree of two
  components whose root has an absent slot before the child.
\<close>

definition initialised_pair :: "int store" where
  "initialised_pair =
     snd (dunder_init 0 0 1 (snd (dunder_init 0 0 0
       \<lparr>mods = (\<lambda>_. blank), boxes = (\<lambda>_. \<lparr>data = VNone\<rparr>), fresh = 0\<rparr>)))"

definition gapped :: "int store" where
  "gapped =
     snd (add_module 3 0 ''C'' (VModule 1) (snd (add_module 3 0 ''D'' VNone initialised_pair)))"

section \<open>Reading the registries of an initialised component\<close>

lemma getattr_reserved:
  "registries m = Some g \<Longrightarrow> k \<in> set reserved \<Longrightarrow> getattr (Suc d) m k = Inr (VRegistry k)"
  by (auto simp add: object_getattribute_def instance_dict_def reserved_def)

lemma self_parameters_init:
  "registries m = Some g \<Longrightarrow> self_parameters (Suc d) m = Inr (u_parameters g)"
  using getattr_reserved[of m g "''_parameters''" d]
  by (simp add: self_parameters_def self_parameters_by_def as_registry_def reserved_def
      del: getattr.simps)

lemma self_modules_init:
  "registries m = Some g \<Longrightarrow> self_modules (Suc d) m = Inr (u_modules g)"
  using getattr_reserved[of m g "''_modules''" d]
  by (simp add: self_modules_def self_modules_by_def as_registry_def reserved_def
      del: getattr.simps)

lemma self_buffers_init:
  "registries m = Some g \<Longrightarrow> self_buffers (Suc d) m = Inr (u_buffers g)"
  using getattr_reserved[of m g "''_buffers''" d]
  by (simp add: self_buffers_def self_buffers_by_def as_registry_def reserved_def
      del: getattr.simps)

lemma hasattr_reserved:
  "registries m = Some g \<Longrightarrow> k \<in> set reserved \<Longrightarrow> hasattr (Suc d) m k = Inr True"
  using getattr_reserved[of m g k d]
  by (simp add: hasattr_def hasattr_by_def del: getattr.simps)

section \<open>Path resolution of a parameter\<close>

lemma rsplit1_no_sep: "c \<notin> set xs \<Longrightarrow> rsplit1 c xs = [xs]"
proof -
  assume "c \<notin> set xs"
  then have "dropWhile (\<lambda>x. x \<noteq> c) (rev xs) = []"
    by (auto simp add: dropWhile_eq_Nil_conv)
  then show ?thesis unfolding rsplit1_def by (simp only: list.case)
qed

text \<open>
  Claim C10. A path without the separator never resolves to a parameter:
  \<^verbatim>\<open>get_parameter\<close> raises \<^verbatim>\<open>ValueError\<close> on it whatever the component holds, because
  \<^verbatim>\<open>rsplit\<close> gives one part and the unpacking into two names fails.
\<close>

theorem get_parameter_single_segment:
  "path \<noteq> [] \<Longrightarrow> CHR ''.'' \<notin> set path \<Longrightarrow>
     get_parameter ParameterLike d s r path = Inl ValueError"
  by (simp add: get_parameter_def rsplit1_no_sep)

text \<open>
  The root of the scenario holds the parameter \<^verbatim>\<open>w\<close>, reads it as an attribute, and
  still does not resolve the path \<^verbatim>\<open>w\<close>.
\<close>

theorem get_parameter_single_segment_witness:
  "''w'' \<noteq> [] \<and> CHR ''.'' \<notin> set ''w''
     \<and> getattr 2 (mods scenario 0) ''w'' = Inr (VParameter 0)
     \<and> get_parameter parameter_like 2 scenario 0 ''w'' = Inl ValueError"
proof -
  have "getattr (Suc (Suc 0)) (mods scenario 0) ''w'' = Inr (VParameter 0)"
    by (simp add: scenario_def module_R_def object_getattribute_def instance_dict_def
        class_attr_def class_body_def reserved_def dunder_getattr_def guarded_lookup_def
        hasattr_by_def self_parameters_by_def as_registry_def)
  then show ?thesis
    using get_parameter_single_segment [of "''w''" parameter_like 2 scenario 0]
    by (simp add: numeral_2_eq_2)
qed

section \<open>Flattening the scenario\<close>

lemma named_modules_root_and_child:
  assumes R: "registries (mods s R) = Some gR"
    and Rm: "u_modules gR = [(''C'', Some C)]"
    and C: "registries (mods s C) = Some gC"
    and Cm: "u_modules gC = []"
    and d: "3 \<le> d"
  shows "named_modules d s R [] True True = ([([], Some R), (''C'', Some C)], None)"
proof -
  from d obtain k where k: "d = Suc (Suc (Suc k))"
    by (metis Suc_le_D numeral_3_eq_3 Suc_le_mono)
  have mR: "self_modules (Suc (Suc k)) (mods s R) = Inr [(''C'', Some C)]"
    using self_modules_init[OF R] Rm by simp
  have mC: "self_modules (Suc k) (mods s C) = Inr []"
    using self_modules_init[OF C] Cm by simp
  show ?thesis
    unfolding k by (simp add: mR mC join_path_def del: getattr.simps)
qed

lemma scenario_mods: "mods scenario 0 = module_R" "mods scenario (Suc 0) = module_C"
  by (simp_all add: scenario_def)

lemma scenario_named_modules:
  "named_modules 3 scenario 0 [] True True = ([([], Some 0), (''C'', Some 1)], None)"
  by (rule named_modules_root_and_child
      [of scenario 0 "the (registries module_R)" 1 "the (registries module_C)"])
    (simp_all add: scenario_mods module_R_def module_C_def)

text \<open>
  Claim C1. A root with the one parameter \<^verbatim>\<open>w\<close> and the one child \<^verbatim>\<open>C\<close>, which has
  the one parameter \<^verbatim>\<open>w2\<close> and no child, flattens to \<^verbatim>\<open>w\<close> with the root's
  parameter followed by \<^verbatim>\<open>C.w2\<close> with the child's parameter. The path of an entry
  is the component's path, a dot and the entry's name, and the name alone when the
  component's path is empty.
\<close>

theorem named_parameters_root_and_child:
  assumes R: "registries (mods s R) = Some gR"
    and Rp: "u_parameters gR = [(''w'', pw)]"
    and Rm: "u_modules gR = [(''C'', Some C)]"
    and C: "registries (mods s C) = Some gC"
    and Cp: "u_parameters gC = [(''w2'', pw2)]"
    and Cm: "u_modules gC = []"
    and d: "3 \<le> d"
  shows "named_parameters d s R [] True = ([(''w'', pw), (''C.w2'', pw2)], None)
    \<and> join_path [] key = key
    \<and> (prefix \<noteq> [] \<longrightarrow> join_path prefix key = prefix @ ''.'' @ key)"
proof -
  from d obtain k where k: "d = Suc k"
    by (metis Suc_le_D numeral_3_eq_3)
  have nm: "named_modules d s R [] True True = ([([], Some R), (''C'', Some C)], None)"
    by (rule named_modules_root_and_child[OF R Rm C Cm d])
  have pR: "parameters_items d s (Some R) = Inr [(''w'', pw)]"
    unfolding k using self_parameters_init[OF R] Rp by (simp add: parameters_items_def)
  have pC: "parameters_items d s (Some C) = Inr [(''w2'', pw2)]"
    unfolding k using self_parameters_init[OF C] Cp by (simp add: parameters_items_def)
  have "named_parameters d s R [] True = ([(''w'', pw), (''C.w2'', pw2)], None)"
    by (simp add: named_parameters_def named_members_def nm pR pC join_path_def)
  then show ?thesis by (simp add: join_path_def)
qed

theorem named_parameters_root_and_child_witness:
  "named_parameters 3 scenario 0 [] True = ([(''w'', Some 0), (''C.w2'', Some 1)], None)
     \<and> join_path [] ''w'' = ''w'' \<and> join_path ''C'' ''w2'' = ''C.w2''"
  using named_parameters_root_and_child [of scenario 0 "the (registries module_R)" "Some 0" 1
      "the (registries module_C)" "Some 1" 3 "''w''" "''C''"]
    named_parameters_root_and_child [of scenario 0 "the (registries module_R)" "Some 0" 1
      "the (registries module_C)" "Some 1" 3 "''w2''" "''C''"]
  by (simp add: scenario_mods module_R_def module_C_def)

section \<open>The three tiers of \<open>forward\<close>\<close>

text \<open>
  Claim C3. \<open>forward\<close> tries the tier of the parameters, then the tier of the
  buffers, then the stateless tier. It raises \<^verbatim>\<open>NotImplementedError\<close> exactly when
  all three do; the result or any other exception of the first tier that does not
  raise \<^verbatim>\<open>NotImplementedError\<close> is the result or the exception of \<open>forward\<close>.
\<close>

theorem forward_dispatch:
  "(forward nb np nm params buffs inputs = Inl NotImplementedError \<longleftrightarrow>
      nb params inputs = Inl NotImplementedError \<and> np buffs inputs = Inl NotImplementedError
      \<and> nm inputs = Inl NotImplementedError)
   \<and> (\<forall>y. nb params inputs = Inr y \<longrightarrow> forward nb np nm params buffs inputs = Inr y)
   \<and> (\<forall>e. nb params inputs = Inl e \<and> e \<noteq> NotImplementedError \<longrightarrow>
         forward nb np nm params buffs inputs = Inl e)
   \<and> (nb params inputs = Inl NotImplementedError \<longrightarrow>
        (\<forall>y. np buffs inputs = Inr y \<longrightarrow> forward nb np nm params buffs inputs = Inr y)
      \<and> (\<forall>e. np buffs inputs = Inl e \<and> e \<noteq> NotImplementedError \<longrightarrow>
            forward nb np nm params buffs inputs = Inl e)
      \<and> (np buffs inputs = Inl NotImplementedError \<longrightarrow>
            forward nb np nm params buffs inputs = nm inputs))"
  by (auto simp add: forward_def split: sum.splits)

theorem forward_dispatch_witness:
  "forward forward_nb_default forward_np_default forward_nm_default
       ([] :: int params) ([] :: int buffs) (0 :: nat) = (Inl NotImplementedError :: error + nat)
   \<and> forward forward_nb_default (\<lambda>buffs inputs. Inl TypeError) (\<lambda>inputs. Inr (Suc inputs))
       ([] :: int params) ([] :: int buffs) (0 :: nat) = (Inl TypeError :: error + nat)
   \<and> forward forward_nb_default forward_np_default (\<lambda>inputs. Inr (Suc inputs))
       ([] :: int params) ([] :: int buffs) (0 :: nat) = (Inr 1 :: error + nat)"
  using
    forward_dispatch [of forward_nb_default forward_np_default
      "forward_nm_default :: nat \<Rightarrow> error + nat" "[] :: int params" "[] :: int buffs" 0]
    forward_dispatch [of forward_nb_default "\<lambda>buffs inputs. Inl TypeError"
      "\<lambda>inputs. Inr (Suc inputs) :: error + nat" "[] :: int params" "[] :: int buffs" 0]
    forward_dispatch [of forward_nb_default forward_np_default
      "\<lambda>inputs. Inr (Suc inputs) :: error + nat" "[] :: int params" "[] :: int buffs" 0]
  by (simp add: forward_nb_default_def forward_np_default_def forward_nm_default_def)

section \<open>Reading an attribute of a component that is not initialised\<close>

lemma depth1: "0 < d \<Longrightarrow> \<exists>k. d = Suc k"
  by (cases d) simp_all

lemma depth2: "2 \<le> d \<Longrightarrow> \<exists>k. d = Suc (Suc k)"
  by (metis Suc_le_D numeral_2_eq_2 Suc_le_mono)

lemma depth3: "3 \<le> d \<Longrightarrow> \<exists>k. d = Suc (Suc (Suc k))"
  by (metis Suc_le_D numeral_3_eq_3 Suc_le_mono)

lemma getattr_uninit_parameters:
  assumes "registries m = None" "map_of (dict m) ''_parameters'' = None"
    "map_of (cls_attrs m) ''_parameters'' = None"
  shows "getattr d m ''_parameters'' = Inl RecursionError"
proof (induction d)
  case 0
  show ?case by simp
next
  case (Suc d)
  have "object_getattribute (getattr d m) m ''_parameters''
      = Inl (AttributeError (HasNoAttribute ''_parameters''))"
    using assms
    by (simp add: object_getattribute_def instance_dict_def class_attr_def class_body_def)
  moreover have "dunder_getattr (getattr d m) m ''_parameters'' = Inl RecursionError"
    using Suc by (simp add: dunder_getattr_def guarded_lookup_def hasattr_by_def)
  ultimately show ?case by simp
qed

lemma getattr_uninit:
  assumes "registries m = None" "map_of (dict m) ''_parameters'' = None"
    "map_of (cls_attrs m) ''_parameters'' = None"
    and "key \<notin> set properties" "instance_dict m key = None" "class_attr m key = None"
  shows "getattr d m key = Inl RecursionError"
proof (cases d)
  case 0
  then show ?thesis by simp
next
  case (Suc k)
  have "object_getattribute (getattr k m) m key = Inl (AttributeError (HasNoAttribute key))"
    using assms(4-6) by (simp add: object_getattribute_def properties_def)
  moreover have "dunder_getattr (getattr k m) m key = Inl RecursionError"
    using getattr_uninit_parameters[OF assms(1-3), of k]
    by (simp add: dunder_getattr_def guarded_lookup_def hasattr_by_def)
  ultimately show ?thesis using Suc by simp
qed

lemma blank_getattr_reserved:
  "key \<in> set reserved \<Longrightarrow> getattr d blank key = Inl RecursionError"
  by (rule getattr_uninit)
    (auto simp add: blank_def instance_dict_def class_attr_def class_body_def properties_def
      reserved_def)

lemma blank_registration:
  assumes "mods s r = blank"
  shows "register_parameter parameter_like d r ''w'' (VTensor t) s = (Some RecursionError, s)"
    and "add_module d r ''child'' (VModule c) s = (Some RecursionError, s)"
    and "register_buffer d r ''b'' (VTensor t) s = (Some RecursionError, s)"
  using blank_getattr_reserved[of "''_parameters''" d] blank_getattr_reserved[of "''_modules''" d]
    blank_getattr_reserved[of "''_buffers''" d] assms
  by (simp_all add: register_parameter_def add_module_def register_buffer_def
      self_parameters_def self_parameters_by_def self_modules_def self_modules_by_def
      self_buffers_def self_buffers_by_def as_registry_def reserved_def)

lemma hasattr_by_errors:
  "(\<And>k e. get k = Inl e \<Longrightarrow> P e) \<Longrightarrow> hasattr_by get key = Inl e \<Longrightarrow> P e"
  by (auto simp add: hasattr_by_def split: sum.splits if_splits)

lemma as_registry_errors:
  "(\<And>k e. get k = Inl e \<Longrightarrow> raised_by_getattr e) \<Longrightarrow> as_registry n field get m = Inl e
     \<Longrightarrow> raised_by_getattr e"
  by (auto simp add: as_registry_def split: sum.splits option.splits if_splits)

lemma guarded_lookup_errors:
  "(\<And>e. has = Inl e \<Longrightarrow> P e) \<Longrightarrow> (\<And>e. reg = Inl e \<Longrightarrow> P e)
     \<Longrightarrow> guarded_lookup has reg key = Inl e \<Longrightarrow> P e"
  by (auto simp add: guarded_lookup_def split: sum.splits bool.splits)

lemma dunder_getattr_errors:
  assumes get: "\<And>k e. get k = Inl e \<Longrightarrow> raised_by_getattr e"
    and "dunder_getattr get m key = Inl e"
  shows "raised_by_getattr e"
proof -
  have h: "hasattr_by get k = Inl e' \<Longrightarrow> raised_by_getattr e'" for k e'
    using hasattr_by_errors[of get raised_by_getattr k e'] get by blast
  have r: "as_registry n field get m = Inl e' \<Longrightarrow> raised_by_getattr e'" for n field e'
    using as_registry_errors[of get n field m e'] get by blast
  have g: "guarded_lookup (hasattr_by get k) (as_registry n field get m) key = Inl e'
      \<Longrightarrow> raised_by_getattr e'" for k n field e'
    using guarded_lookup_errors[of "hasattr_by get k" raised_by_getattr "as_registry n field get m" key e']
      h r by blast
  show ?thesis
    using assms(2) g[of "''_parameters''" "''_parameters''" u_parameters]
      g[of "''_modules''" "''_modules''" u_modules] g[of "''_buffers''" "''_buffers''" u_buffers]
    by (auto simp add: dunder_getattr_def self_parameters_by_def self_modules_by_def
        self_buffers_by_def split: sum.splits option.splits)
qed

lemma getattr_errors: "getattr d m key = Inl e \<Longrightarrow> raised_by_getattr e"
proof (induction d arbitrary: key e)
  case 0
  then show ?case by auto
next
  case (Suc d)
  have o: "object_getattribute (getattr d m) m key = Inl e' \<Longrightarrow> raised_by_getattr e'" for e'
    using Suc.IH by (auto simp add: object_getattribute_def split: if_splits option.splits)
  show ?case
    using Suc.prems o dunder_getattr_errors[of "getattr d m" m key e] Suc.IH
    by (auto split: sum.splits if_splits)
qed

lemma registry_read_then_hasattr:
  "as_registry n field (getattr d m) m = Inr x \<Longrightarrow> hasattr d m n = Inr True"
  by (auto simp add: as_registry_def hasattr_def hasattr_by_def split: sum.splits)

lemma wrap_mods: "mods (snd (wrap v s)) = mods s"
  by (cases v) simp_all

lemma register_parameter_guard_dead:
  "fst (register_parameter ParameterLike d r name v s)
     \<noteq> Some (AttributeError CannotAssignBeforeInit)"
proof -
  have e: "self_parameters d (mods s r) \<noteq> Inl (AttributeError CannotAssignBeforeInit)"
    using as_registry_errors[of "getattr d (mods s r)" "''_parameters''" u_parameters "mods s r"]
      getattr_errors[of d "mods s r"]
    by (auto simp add: self_parameters_def self_parameters_by_def)
  show ?thesis
    using registry_read_then_hasattr[of "''_parameters''" u_parameters d "mods s r"] e
      wrap_mods[of v s]
    by (auto simp add: register_parameter_def setitem_parameters_def self_parameters_def
        self_parameters_by_def split: sum.splits prod.splits bool.splits)
qed

text \<open>
  Claim C8. The object at address 2 of the scenario has not been initialised. Every
  registration on it with a valid name and a valid value ends with \<^verbatim>\<open>RecursionError\<close>,
  whatever the stack depth, and not with the \<^verbatim>\<open>AttributeError\<close> of the guard
  \<^verbatim>\<open>if not hasattr(self, "_parameters"): raise ...\<close>: the assertion before the guard
  reads \<^verbatim>\<open>self._parameters\<close>, which enters \<^verbatim>\<open>__getattr__\<close>, whose own
  \<^verbatim>\<open>hasattr(self, "_parameters")\<close> enters \<^verbatim>\<open>__getattr__\<close> again without end.
\<close>

theorem registration_before_init:
  "(\<forall>d. register_parameter parameter_like d 2 ''w'' (VTensor 5) scenario = (Some RecursionError, scenario))
   \<and> (\<forall>d. add_module d 2 ''child'' (VModule 1) scenario = (Some RecursionError, scenario))
   \<and> (\<forall>d. register_buffer d 2 ''b'' (VTensor 5) scenario = (Some RecursionError, scenario))"
proof -
  have "mods scenario 2 = blank" by (simp add: scenario_def)
  then show ?thesis using blank_registration by blast
qed

section \<open>Assigning a parameter to a registered name\<close>

text \<open>
  Claim C5, amended. When the parameter registry of an initialised component binds
  \<open>key\<close> to the box \<open>p\<close>, assigning a value that is itself a box \<open>q\<close> (an instance
  of \<^verbatim>\<open>Parameter\<close>, the test of \<^verbatim>\<open>__setattr__\<close>) to the attribute \<open>key\<close> returns
  normally and changes one thing: the value wrapped by \<open>p\<close> becomes the value wrapped
  by \<open>q\<close>. No module object changes, so the registry still binds \<open>key\<close> to the same
  box \<open>p\<close>; no box is built and every other box keeps its value.
\<close>

theorem setattr_parameter_in_place:
  assumes init: "registries (mods s r) = Some g"
    and bound: "map_of (u_parameters g) key = Some (Some p)"
    and d: "2 \<le> d"
  shows "dunder_setattr ParameterLike d r key (VParameter q) s =
      (None, s\<lparr>boxes := (boxes s)(p := (boxes s p)\<lparr>data := data (boxes s q)\<rparr>)\<rparr>)
    \<and> mods (snd (dunder_setattr ParameterLike d r key (VParameter q) s)) = mods s
    \<and> fresh (snd (dunder_setattr ParameterLike d r key (VParameter q) s)) = fresh s
    \<and> data (boxes (snd (dunder_setattr ParameterLike d r key (VParameter q) s)) p)
        = data (boxes s q)
    \<and> (\<forall>p'. p' \<noteq> p \<longrightarrow>
          boxes (snd (dunder_setattr ParameterLike d r key (VParameter q) s)) p' = boxes s p')"
proof -
  from d obtain k where k: "d = Suc (Suc k)"
    using depth2 by blast
  have "key \<in> fst ` set (u_parameters g)"
    using bound by (metis domI dom_map_of_conv_image_fst)
  then have "dunder_setattr ParameterLike d r key (VParameter q) s =
      (None, s\<lparr>boxes := (boxes s)(p := (boxes s p)\<lparr>data := data (boxes s q)\<rparr>)\<rparr>)"
    unfolding k using self_parameters_init[OF init, of k] bound
    by (simp add: dunder_setattr_body_def assign_data_def del: getattr.simps)
  then show ?thesis by simp
qed

theorem setattr_parameter_in_place_witness:
  "fst (dunder_setattr parameter_like 2 0 ''w'' (VParameter 1) scenario) = None
   \<and> mods (snd (dunder_setattr parameter_like 2 0 ''w'' (VParameter 1) scenario)) 0 = module_R
   \<and> map_of (u_parameters (the (registries module_R))) ''w'' = Some (Some 0)
   \<and> data (boxes scenario 0) = VTensor 2
   \<and> data (boxes (snd (dunder_setattr parameter_like 2 0 ''w'' (VParameter 1) scenario)) 0)
       = VTensor 3"
  using setattr_parameter_in_place [of scenario 0 "the (registries module_R)" "''w''" 0 2
      parameter_like 1]
  by (simp add: scenario_mods module_R_def) (simp add: scenario_def)

section \<open>Reading an attribute of an initialised component\<close>

lemma dunder_getattr_init:
  assumes "registries m = Some g"
  shows "dunder_getattr (getattr (Suc k) m) m key = registry_chain g key"
  using getattr_reserved[OF assms, of "''_parameters''" k]
    getattr_reserved[OF assms, of "''_modules''" k]
    getattr_reserved[OF assms, of "''_buffers''" k] assms
  by (simp add: dunder_getattr_def registry_chain_def guarded_lookup_def hasattr_by_def
      self_parameters_by_def self_modules_by_def self_buffers_by_def as_registry_def
      reserved_def del: getattr.simps split: option.splits)

lemma object_getattribute_ordinary:
  "key \<noteq> ''training'' \<Longrightarrow> object_getattribute get m key =
     (case ordinary_attribute m key of
        Some v \<Rightarrow> Inr v
      | None \<Rightarrow> Inl (AttributeError (HasNoAttribute key)))"
  by (simp add: object_getattribute_def ordinary_attribute_def split: option.splits)

lemma getattr_init:
  assumes "registries m = Some g" "key \<noteq> ''training''"
  shows "getattr (Suc (Suc k)) m key =
     (case ordinary_attribute m key of Some v \<Rightarrow> Inr v | None \<Rightarrow> registry_chain g key)"
  using dunder_getattr_init[OF assms(1), of k key]
    object_getattribute_ordinary[OF assms(2), of "getattr (Suc k) m" m]
  by (simp del: getattr.simps add: getattr.simps(2)[of "Suc k"] split: option.splits)

lemma registry_chain_errors:
  "registry_chain g key = Inl e \<Longrightarrow> e = AttributeError (HasNoAttribute key)"
  by (auto simp add: registry_chain_def split: option.splits)

lemma getattr_init_training:
  assumes "registries m = Some g"
  shows "getattr (Suc (Suc (Suc k))) m ''training'' =
     (case ordinary_attribute m ''_training'' of
        Some v \<Rightarrow> Inr v
      | None \<Rightarrow>
         (case registry_chain g ''_training'' of
            Inr v \<Rightarrow> Inr v
          | Inl e \<Rightarrow> registry_chain g ''training''))"
proof -
  have t: "getattr (Suc (Suc k)) m ''_training'' =
     (case ordinary_attribute m ''_training'' of Some v \<Rightarrow> Inr v
      | None \<Rightarrow> registry_chain g ''_training'')"
    by (rule getattr_init[OF assms]) simp
  have o: "object_getattribute (getattr (Suc (Suc k)) m) m ''training''
      = getattr (Suc (Suc k)) m ''_training''"
    by (simp add: object_getattribute_def del: getattr.simps)
  show ?thesis
    using dunder_getattr_init[OF assms, of "Suc k" "''training''"] 
      registry_chain_errors[of g "''_training''"]
    by (auto simp del: getattr.simps simp add: getattr.simps(2)[of "Suc (Suc k)"] o t
        split: option.splits sum.splits)
qed

lemma getattr_init_deep:
  assumes "registries m = Some g" "key \<noteq> ''training''" "2 \<le> d"
  shows "getattr d m key =
     (case ordinary_attribute m key of Some v \<Rightarrow> Inr v | None \<Rightarrow> registry_chain g key)"
  using depth2[OF assms(3)] getattr_init[OF assms(1,2)] by auto

lemma register_parameter_init:
  assumes init: "registries (mods s c) = Some g"
    and valid: "n \<noteq> []" "CHR ''.'' \<notin> set n"
    and plike: "ParameterLike v"
    and new: "n \<notin> fst ` set (u_parameters g)"
    and d: "0 < d"
  shows "register_parameter ParameterLike d c n v s =
     (None, update_registries c
        (\<lambda>g'. g'\<lparr>u_parameters := AList.update n (fst (wrap v s)) (u_parameters g)\<rparr>)
        (snd (wrap v s)))"
proof -
  obtain p s1 where w: "wrap v s = (p, s1)"
    by (cases "wrap v s")
  have m: "mods s1 = mods s"
    using wrap_mods[of v s] w by simp
  from d obtain k where k: "d = Suc k"
    using depth1 by blast
  show ?thesis
    unfolding k
    using self_parameters_init[OF init, of k] hasattr_reserved[OF init, of "''_parameters''" k]
      valid plike new
    by (simp add: register_parameter_def setitem_parameters_def reserved_def w m
        del: getattr.simps)
qed

lemma register_parameter_exists:
  assumes init: "registries (mods s c) = Some g"
    and valid: "n \<noteq> []" "CHR ''.'' \<notin> set n"
    and plike: "ParameterLike v"
    and old: "n \<in> fst ` set (u_parameters g)"
    and d: "0 < d"
  shows "register_parameter ParameterLike d c n v s = (Some (AssertionError AlreadyExists), s)"
proof -
  from d obtain k where k: "d = Suc k"
    using depth1 by blast
  show ?thesis
    unfolding k using self_parameters_init[OF init, of k] valid plike old
    by (simp add: register_parameter_def del: getattr.simps)
qed

lemma setattr_plain:
  assumes init: "registries (mods s r) = Some g"
    and plain: "\<And>q. v \<noteq> VParameter q" "\<And>c. v \<noteq> VModule c"
    and nobuf: "key \<notin> fst ` set (u_buffers g)"
    and key: "key \<notin> set properties" "key \<notin> set reserved"
    and d: "2 \<le> d"
  shows "dunder_setattr ParameterLike d r key v s =
     (None, update_module r (\<lambda>m. m\<lparr>dict := AList.update key v (dict m)\<rparr>) s)"
proof -
  from d obtain k where k: "d = Suc (Suc k)"
    using depth2 by blast
  show ?thesis
    unfolding k using self_buffers_init[OF init, of k] plain nobuf key
    by (cases v) (auto simp add: dunder_setattr_body_def object_setattr_def properties_def
        simp del: getattr.simps)
qed

lemma shadowed_root:
  "mods shadowed 0 =
     \<lparr>cls_name = ''Module'', cls_attrs = [],
      registries = Some \<lparr>u_parameters = [(''w'', Some 0), (''x'', Some 2)],
                         u_modules = [(''C'', Some 1)], u_buffers = []\<rparr>,
      dict = [(''_training'', VBool False), (''x'', VObject 5)]\<rparr>"
proof -
  let ?s1 = "update_module 0 (\<lambda>m. m\<lparr>dict := AList.update ''x'' (VObject 5) (dict m)\<rparr>) scenario"
  have 1: "dunder_setattr parameter_like 3 0 ''x'' (VObject 5) scenario = (None, ?s1)"
    by (rule setattr_plain[of scenario 0 "the (registries module_R)"])
      (simp_all add: scenario_mods module_R_def properties_def reserved_def)
  have 2: "register_parameter parameter_like 3 0 ''x'' (VTensor 9) ?s1 =
     (None, update_registries 0
        (\<lambda>g'. g'\<lparr>u_parameters := AList.update ''x'' (fst (wrap (VTensor 9) ?s1))
            (u_parameters (the (registries module_R)))\<rparr>)
        (snd (wrap (VTensor 9) ?s1)))"
    by (rule register_parameter_init[of ?s1 0 "the (registries module_R)"])
      (simp_all add: update_module_def scenario_mods module_R_def)
  show ?thesis
    unfolding shadowed_def
    apply (simp only: 1 snd_conv 2)
    apply (simp add: update_registries_def update_module_def scenario_def module_R_def)
    done
qed

text \<open>
  Claim C6, as stated, fails. In \<open>shadowed\<close> the root has \<^verbatim>\<open>x\<close> both as an ordinary
  instance attribute and as a registered parameter, and the attribute read gives the
  ordinary attribute, not the registry entry.
\<close>

theorem getattr_registry_first_counterexample:
  "map_of (dict (mods shadowed 0)) ''x'' = Some (VObject 5)
   \<and> map_option u_parameters (registries (mods shadowed 0)) = Some [(''w'', Some 0), (''x'', Some 2)]
   \<and> getattr 3 (mods shadowed 0) ''x'' = Inr (VObject 5)
   \<and> getattr 3 (mods shadowed 0) ''x'' \<noteq> Inr (VParameter 2)"
proof -
  have "getattr 3 (mods shadowed 0) ''x'' = Inr (VObject 5)"
    by (subst getattr_init_deep[of _ "the (registries (mods shadowed 0))"])
      (simp_all add: shadowed_root ordinary_attribute_def instance_dict_def reserved_def)
  then show ?thesis by (simp add: shadowed_root)
qed

text \<open>
  Claim C6, amended. On an initialised component an attribute read resolves the
  ordinary attributes first (properties, instance dictionary, class). Only a name
  that is none of them goes through the registries: parameters, then children, then
  buffers, and \<^verbatim>\<open>AttributeError\<close> when no registry has it. The property \<^verbatim>\<open>training\<close>
  reads \<^verbatim>\<open>_training\<close> by the same rule.
\<close>

theorem getattr_ordinary_first:
  assumes "registries m = Some g" "3 \<le> d"
  shows "(key \<noteq> ''training'' \<longrightarrow>
       getattr d m key =
         (case ordinary_attribute m key of Some v \<Rightarrow> Inr v | None \<Rightarrow> registry_chain g key))
   \<and> getattr d m ''training'' =
       (case ordinary_attribute m ''_training'' of
          Some v \<Rightarrow> Inr v
        | None \<Rightarrow>
           (case registry_chain g ''_training'' of
              Inr v \<Rightarrow> Inr v
            | Inl e \<Rightarrow> registry_chain g ''training''))"
proof -
  from assms(2) obtain k where k: "d = Suc (Suc (Suc k))"
    using depth3 by blast
  show ?thesis
    unfolding k using getattr_init[OF assms(1), of key "Suc k"] getattr_init_training[OF assms(1), of k]
    by (simp del: getattr.simps)
qed

theorem getattr_ordinary_first_witness:
  "getattr 3 module_R ''w'' = Inr (VParameter 0)
   \<and> getattr 3 module_R ''C'' = Inr (VModule 1)
   \<and> getattr 3 module_R ''forward'' = Inr (VMethod ''forward'')
   \<and> getattr 3 module_R ''missing'' = Inl (AttributeError (HasNoAttribute ''missing''))
   \<and> getattr 3 module_R ''training'' = Inr (VBool False)
   \<and> getattr 3 (mods shadowed 0) ''x'' = Inr (VObject 5)"
  using getattr_ordinary_first [of module_R "the (registries module_R)" 3 "''w''"]
    getattr_ordinary_first [of module_R "the (registries module_R)" 3 "''C''"]
    getattr_ordinary_first [of module_R "the (registries module_R)" 3 "''forward''"]
    getattr_ordinary_first [of module_R "the (registries module_R)" 3 "''missing''"]
    getattr_ordinary_first [of "mods shadowed 0" "the (registries (mods shadowed 0))" 3 "''x''"]
  by (simp add: shadowed_root module_R_def ordinary_attribute_def registry_chain_def
      instance_dict_def class_attr_def class_body_def reserved_def)

section \<open>Assigning a bare tensor to a registered name\<close>

text \<open>
  Claim C5, as stated, fails. In the scenario the root binds \<^verbatim>\<open>w\<close> to the box at
  address 0, which wraps 2. The tensor 7 is parameter-like, but it is not an instance
  of \<^verbatim>\<open>Parameter\<close>: \<^verbatim>\<open>R.w = 7\<close> takes the last branch of \<^verbatim>\<open>__setattr__\<close>, returns
  normally and stores an ordinary instance attribute. The registry still binds \<^verbatim>\<open>w\<close>
  to the box at address 0, the box still wraps 2, no box has changed, and reading
  \<^verbatim>\<open>R.w\<close> now gives the tensor.
\<close>

theorem setattr_parameter_in_place_counterexample:
  "parameter_like (VTensor 7)
   \<and> map_option u_parameters (registries (mods scenario 0)) = Some [(''w'', Some 0)]
   \<and> data (boxes scenario 0) = VTensor 2
   \<and> fst (dunder_setattr parameter_like 3 0 ''w'' (VTensor 7) scenario) = None
   \<and> map_option u_parameters
         (registries (mods (snd (dunder_setattr parameter_like 3 0 ''w'' (VTensor 7) scenario)) 0))
       = Some [(''w'', Some 0)]
   \<and> boxes (snd (dunder_setattr parameter_like 3 0 ''w'' (VTensor 7) scenario)) = boxes scenario
   \<and> data (boxes (snd (dunder_setattr parameter_like 3 0 ''w'' (VTensor 7) scenario)) 0)
       \<noteq> VTensor 7
   \<and> dict (mods (snd (dunder_setattr parameter_like 3 0 ''w'' (VTensor 7) scenario)) 0)
       = [(''_training'', VBool False), (''w'', VTensor 7)]
   \<and> getattr 3 (mods (snd (dunder_setattr parameter_like 3 0 ''w'' (VTensor 7) scenario)) 0) ''w''
       = Inr (VTensor 7)"
proof -
  let ?s1 = "update_module 0 (\<lambda>m. m\<lparr>dict := AList.update ''w'' (VTensor 7) (dict m)\<rparr>) scenario"
  have run: "dunder_setattr parameter_like 3 0 ''w'' (VTensor 7) scenario = (None, ?s1)"
    by (rule setattr_plain[of scenario 0 "the (registries module_R)"])
      (simp_all add: scenario_mods module_R_def properties_def reserved_def)
  have m: "mods ?s1 0 =
     \<lparr>cls_name = ''Module'', cls_attrs = [],
      registries = Some \<lparr>u_parameters = [(''w'', Some 0)], u_modules = [(''C'', Some 1)],
                         u_buffers = []\<rparr>,
      dict = [(''_training'', VBool False), (''w'', VTensor 7)]\<rparr>"
    by (simp add: update_module_def scenario_mods module_R_def)
  have b: "boxes ?s1 = boxes scenario"
    by (simp add: update_module_def)
  have read: "getattr 3 (mods ?s1 0) ''w'' = Inr (VTensor 7)"
    by (subst getattr_init_deep[of _ "the (registries (mods ?s1 0))"])
      (simp_all add: m ordinary_attribute_def instance_dict_def reserved_def)
  have old: "data (boxes scenario 0) = VTensor 2"
    by (simp add: scenario_def)
  show ?thesis
    unfolding run fst_conv snd_conv b
    using read old by (simp add: m scenario_mods module_R_def)
qed

section \<open>Registering a parameter and reading it back\<close>

lemma registered_module:
  "mods (update_registries c f (snd (wrap v s))) c
     = (mods s c)\<lparr>registries := map_option f (registries (mods s c))\<rparr>"
  by (simp add: update_registries_def update_module_def wrap_mods)

lemma ordinary_attribute_registries:
  "registries m \<noteq> None \<Longrightarrow> ordinary_attribute (m\<lparr>registries := Some g'\<rparr>) n = ordinary_attribute m n"
  by (simp add: ordinary_attribute_def instance_dict_def class_attr_def split: option.splits)

lemma registry_chain_parameter:
  "registry_chain (g\<lparr>u_parameters := AList.update n p ps\<rparr>) n = Inr (param_val p)"
  by (simp add: registry_chain_def update_conv')

lemma wrap_cases:
  "(case v of VParameter q \<Rightarrow> fst (wrap v s) = Some q \<and> snd (wrap v s) = s
    | VNone \<Rightarrow> fst (wrap v s) = None \<and> snd (wrap v s) = s
    | _ \<Rightarrow> fst (wrap v s) = Some (fresh s) \<and> data (boxes (snd (wrap v s)) (fresh s)) = v
         \<and> fresh (snd (wrap v s)) = Suc (fresh s)
         \<and> (\<forall>p. p \<noteq> fresh s \<longrightarrow> boxes (snd (wrap v s)) p = boxes s p))"
  by (cases v) simp_all

text \<open>
  Claim C7, amended. Let \<open>n\<close> be a valid name that is neither in the parameter
  registry of the initialised component \<open>c\<close> nor the name of an ordinary attribute
  of \<open>c\<close>. Registering a parameter-like \<open>v\<close> under \<open>n\<close> returns normally, and reading
  the attribute \<open>n\<close> gives the stored entry: \<open>v\<close> itself when it is a box or
  \<^verbatim>\<open>None\<close>, and a new box around \<open>v\<close> otherwise. A second registration under \<open>n\<close>
  fails the assertion that the name is new; an empty name and a name with a dot fail
  their assertions. A failed registration leaves the store as it was.
\<close>

theorem register_parameter_then_read:
  assumes init: "registries (mods s c) = Some g"
    and valid: "n \<noteq> []" "CHR ''.'' \<notin> set n"
    and new: "n \<notin> fst ` set (u_parameters g)"
    and plike: "ParameterLike v" "ParameterLike v2"
    and ordinary: "n \<noteq> ''training''" "ordinary_attribute (mods s c) n = None"
    and d: "2 \<le> d"
  shows "fst (register_parameter ParameterLike d c n v s) = None
    \<and> getattr d (mods (snd (register_parameter ParameterLike d c n v s)) c) n
        = Inr (param_val (fst (wrap v s)))
    \<and> boxes (snd (register_parameter ParameterLike d c n v s)) = boxes (snd (wrap v s))
    \<and> (case v of
          VParameter q \<Rightarrow> fst (wrap v s) = Some q \<and> snd (wrap v s) = s
        | VNone \<Rightarrow> fst (wrap v s) = None \<and> snd (wrap v s) = s
        | _ \<Rightarrow> fst (wrap v s) = Some (fresh s) \<and> data (boxes (snd (wrap v s)) (fresh s)) = v
             \<and> fresh (snd (wrap v s)) = Suc (fresh s)
             \<and> (\<forall>p. p \<noteq> fresh s \<longrightarrow> boxes (snd (wrap v s)) p = boxes s p))
    \<and> register_parameter ParameterLike d c n v2 (snd (register_parameter ParameterLike d c n v s))
        = (Some (AssertionError AlreadyExists), snd (register_parameter ParameterLike d c n v s))
    \<and> register_parameter ParameterLike d c [] v s = (Some (AssertionError NameNotNonEmptyStr), s)
    \<and> (\<forall>n'. n' \<noteq> [] \<and> CHR ''.'' \<in> set n' \<longrightarrow>
          register_parameter ParameterLike d c n' v s = (Some (AssertionError NameHasDot), s))"
proof -
  let ?p = "fst (wrap v s)"
  let ?g = "g\<lparr>u_parameters := AList.update n ?p (u_parameters g)\<rparr>"
  let ?s = "update_registries c
      (\<lambda>g'. g'\<lparr>u_parameters := AList.update n ?p (u_parameters g)\<rparr>) (snd (wrap v s))"
  have d1: "0 < d" using d by simp
  have reg: "register_parameter ParameterLike d c n v s = (None, ?s)"
    using register_parameter_init[where s=s and c=c and g=g and n=n and ParameterLike=ParameterLike
        and v=v and d=d] init valid plike(1) new d1
    by simp
  have m: "mods ?s c = (mods s c)\<lparr>registries := Some ?g\<rparr>"
    by (simp add: registered_module init)
  have init': "registries (mods ?s c) = Some ?g"
    by (simp add: m)
  have "ordinary_attribute (mods ?s c) n = None"
    using ordinary(2) ordinary_attribute_registries[of "mods s c" ?g n] init by (simp add: m)
  then have read: "getattr d (mods ?s c) n = Inr (param_val ?p)"
    using getattr_init_deep[OF init' ordinary(1) d] registry_chain_parameter[where g=g and n=n and p="?p" and ps="u_parameters g"]
    by simp
  have "n \<in> fst ` set (u_parameters ?g)"
    by (simp add: update_conv' flip: dom_map_of_conv_image_fst)
  then have again: "register_parameter ParameterLike d c n v2 ?s = (Some (AssertionError AlreadyExists), ?s)"
    using register_parameter_exists[where s="?s" and c=c and g="?g" and n=n
        and ParameterLike=ParameterLike and v=v2 and d=d] init' valid plike(2) d1
    by simp
  have bx: "boxes ?s = boxes (snd (wrap v s))"
    by (simp add: update_registries_def update_module_def)
  have bad: "register_parameter ParameterLike d c [] v s = (Some (AssertionError NameNotNonEmptyStr), s)"
    "\<forall>n'. n' \<noteq> [] \<and> CHR ''.'' \<in> set n' \<longrightarrow>
          register_parameter ParameterLike d c n' v s = (Some (AssertionError NameHasDot), s)"
    by (simp_all add: register_parameter_def)
  show ?thesis
    unfolding reg fst_conv snd_conv
    using read again bx bad wrap_cases[of v s] by blast
qed

theorem register_parameter_then_read_witness:
  "fst (register_parameter parameter_like 3 0 ''bias'' (VTensor 9) scenario) = None
   \<and> getattr 3 (mods (snd (register_parameter parameter_like 3 0 ''bias'' (VTensor 9) scenario)) 0)
       ''bias'' = Inr (VParameter 2)
   \<and> data (boxes (snd (register_parameter parameter_like 3 0 ''bias'' (VTensor 9) scenario)) 2)
       = VTensor 9
   \<and> fst (register_parameter parameter_like 3 0 ''bias'' (VTensor 7)
        (snd (register_parameter parameter_like 3 0 ''bias'' (VTensor 9) scenario)))
       = Some (AssertionError AlreadyExists)
   \<and> register_parameter parameter_like 3 0 [] (VTensor 9) scenario
       = (Some (AssertionError NameNotNonEmptyStr), scenario)
   \<and> register_parameter parameter_like 3 0 ''a.b'' (VTensor 9) scenario
       = (Some (AssertionError NameHasDot), scenario)"
  using register_parameter_then_read [of scenario 0 "the (registries module_R)" "''bias''"
      parameter_like "VTensor 9" "VTensor 7" 3]
  by (simp add: scenario_mods module_R_def ordinary_attribute_def instance_dict_def
      class_attr_def class_body_def reserved_def scenario_def)

lemma named_root_registration:
  "register_parameter parameter_like 3 0 ''name'' (VTensor 9) scenario =
     (None, update_registries 0
        (\<lambda>g'. g'\<lparr>u_parameters := AList.update ''name'' (fst (wrap (VTensor 9) scenario))
            (u_parameters (the (registries module_R)))\<rparr>)
        (snd (wrap (VTensor 9) scenario)))"
  by (rule register_parameter_init[of scenario 0 "the (registries module_R)"])
    (simp_all add: scenario_mods module_R_def)

lemma named_root_root:
  "mods named_root 0 =
     \<lparr>cls_name = ''Module'', cls_attrs = [],
      registries = Some \<lparr>u_parameters = [(''w'', Some 0), (''name'', Some 2)],
                         u_modules = [(''C'', Some 1)], u_buffers = []\<rparr>,
      dict = [(''_training'', VBool False)]\<rparr>"
  unfolding named_root_def
  by (simp only: named_root_registration snd_conv)
    (simp add: update_registries_def update_module_def scenario_def module_R_def)

lemma named_root_fst:
  "fst (register_parameter parameter_like 3 0 ''name'' (VTensor 9) scenario) = None"
  by (simp only: named_root_registration fst_conv)

lemma named_root_box: "data (boxes named_root 2) = VTensor 9"
  unfolding named_root_def
  by (simp only: named_root_registration snd_conv)
    (simp add: update_registries_def update_module_def scenario_def)

text \<open>
  Claim C7, as stated, fails. \<^verbatim>\<open>name\<close> is a valid name that is not in the parameter
  registry of the root, the registration succeeds and stores the box at address 2,
  and reading the attribute gives the value of the property \<^verbatim>\<open>name\<close>.
\<close>

theorem register_parameter_then_read_counterexample:
  "''name'' \<noteq> [] \<and> CHR ''.'' \<notin> set ''name''
   \<and> map_option u_parameters (registries (mods scenario 0)) = Some [(''w'', Some 0)]
   \<and> parameter_like (VTensor 9)
   \<and> fst (register_parameter parameter_like 3 0 ''name'' (VTensor 9) scenario) = None
   \<and> map_option u_parameters (registries (mods named_root 0))
       = Some [(''w'', Some 0), (''name'', Some 2)]
   \<and> data (boxes named_root 2) = VTensor 9
   \<and> getattr 3 (mods named_root 0) ''name'' = Inr (VStr [])
   \<and> getattr 3 (mods named_root 0) ''name'' \<noteq> Inr (VParameter 2)"
proof -
  have "getattr 3 (mods named_root 0) ''name'' = Inr (VStr [])"
    by (subst getattr_init_deep[of _ "the (registries (mods named_root 0))"])
      (simp_all add: named_root_root ordinary_attribute_def)
  then show ?thesis
    by (simp add: named_root_root named_root_fst named_root_box scenario_mods module_R_def)
qed

section \<open>An absent child\<close>

lemma update_new: "k \<notin> fst ` set al \<Longrightarrow> AList.update k v al = al @ [(k, v)]"
  by (induction al) auto

lemma add_module_init:
  assumes init: "registries (mods s r) = Some g"
    and valid: "n \<noteq> []" "CHR ''.'' \<notin> set n"
    and entry: "module_entry v = Some c"
    and new: "n \<notin> fst ` set (u_modules g)"
    and d: "0 < d"
  shows "add_module d r n v s =
     (None, update_registries r (\<lambda>g'. g'\<lparr>u_modules := u_modules g @ [(n, c)]\<rparr>) s)"
proof -
  from d obtain k where k: "d = Suc k"
    using depth1 by blast
  show ?thesis
    unfolding k
    using self_modules_init[OF init, of k] hasattr_reserved[OF init, of "''_modules''" k]
      valid entry new
    by (simp add: add_module_def setitem_modules_def reserved_def update_new
        del: getattr.simps)
qed

lemma for_each_raises:
  "x \<in> set xs \<Longrightarrow> snd (body x) \<noteq> None \<Longrightarrow> snd (for_each xs body) \<noteq> None"
proof (induction xs)
  case Nil
  then show ?case by simp
next
  case (Cons y ys)
  show ?case
  proof (cases "body y")
    case (Pair zs e)
    then show ?thesis
      using Cons by (cases e; cases "for_each ys body") auto
  qed
qed

lemma for_each_singletons: "for_each xs (\<lambda>x. ([f x], None)) = (map f xs, None)"
  by (induction xs) simp_all

lemma for_each_pairs:
  "for_each cs (\<lambda>(key, module). ([h key module], None))
     = (map (\<lambda>(key, module). h key module) cs, None)"
  by (induction cs) auto

lemma self_modules_result:
  "registries m = Some g \<Longrightarrow> self_modules d m = Inr cs \<Longrightarrow> cs = u_modules g"
  by (auto simp add: self_modules_def self_modules_by_def as_registry_def
      split: sum.splits if_splits)

lemma named_modules_absent_child:
  assumes init: "registries (mods s r) = Some g"
    and absent: "(k, None) \<in> set (u_modules g)"
  shows "snd (named_modules d s r prefix include_self True) \<noteq> None"
proof (cases d)
  case 0
  then show ?thesis by simp
next
  case (Suc d1)
  show ?thesis
  proof (cases "self_modules d1 (mods s r)")
    case (Inl e)
    then show ?thesis using Suc by simp
  next
    case (Inr cs)
    then have cs: "cs = u_modules g"
      using self_modules_result[OF init] by blast
    let ?body = "\<lambda>(key, module).
              let module_prefix = join_path prefix key in
              if True then
                (case module of
                   None \<Rightarrow> ([], Some (AttributeError (HasNoAttribute ''named_modules'')))
                 | Some c \<Rightarrow> named_modules d1 s c module_prefix True True)
              else ([(module_prefix, module)], None)"
    have "snd (for_each cs ?body) \<noteq> None"
      by (rule for_each_raises[of "(k, None)"]) (use absent cs in simp_all)
    then show ?thesis
      using Suc Inr by (cases "for_each cs ?body") simp
  qed
qed

lemma modules_direct:
  assumes init: "registries (mods s r) = Some g"
  shows "snd (modules d s r False) \<noteq> None \<or> modules d s r False = (map snd (u_modules g), None)"
proof (cases d)
  case 0
  then show ?thesis by (simp add: modules_def)
next
  case (Suc d1)
  show ?thesis
  proof (cases "self_modules d1 (mods s r)")
    case (Inl e)
    then show ?thesis using Suc by (simp add: modules_def)
  next
    case (Inr cs)
    then have cs: "cs = u_modules g"
      using self_modules_result[OF init] by blast
    have "for_each cs (\<lambda>(key, module). ([(join_path [] key, module)], None))
        = (map (\<lambda>(key, module). (join_path [] key, module)) cs, None)"
      by (rule for_each_pairs)
    moreover have "for_each (map (\<lambda>(key, module). (join_path [] key, module)) cs)
         (\<lambda>(_, module). ([module], None)) = (map snd cs, None)"
      using for_each_pairs[where h="\<lambda>key module. module"
          and cs="map (\<lambda>(key, module). (join_path [] key, module)) cs"]
      by (simp add: case_prod_unfold comp_def)
    ultimately show ?thesis
      using Suc Inr cs by (simp add: modules_def)
  qed
qed

lemma cascade_absent:
  "None \<in> set ms \<Longrightarrow> fst (cascade assign mode ms s) \<noteq> None"
proof (induction ms arbitrary: s)
  case Nil
  then show ?case by simp
next
  case (Cons m ms)
  show ?case
  proof (cases m)
    case None
    then show ?thesis by simp
  next
    case (Some c)
    then show ?thesis
      using Cons by (cases "assign c ''training'' mode s") (auto split: option.splits)
  qed
qed

lemma setattr_bool_keeps_modules:
  assumes "dunder_setattr ParameterLike d r key (VBool b) s = (None, s1)" "key \<noteq> ''training''"
  shows "map_option u_modules (registries (mods s1 r)) = map_option u_modules (registries (mods s r))"
proof (cases d)
  case 0
  then show ?thesis using assms by simp
next
  case (Suc d1)
  show ?thesis
    using assms unfolding Suc
    by (auto simp add: dunder_setattr_body_def object_setattr_def update_module_def
        split: sum.splits if_splits simp del: getattr.simps)
qed


lemma modules_direct_deep:
  assumes init: "registries (mods s r) = Some g" and d: "2 \<le> d"
  shows "modules d s r False = (map snd (u_modules g), None)"
proof -
  from d obtain k where k: "d = Suc (Suc k)"
    using depth2 by blast
  have "snd (modules d s r False) = None"
    unfolding k using self_modules_init[OF init, of k]
    by (simp add: modules_def for_each_pairs del: getattr.simps)
  then show ?thesis
    using modules_direct[OF init, of d] by simp
qed

lemma training_setter_absent:
  assumes init: "registries (mods s r) = Some g"
    and absent: "(k, None) \<in> set (u_modules g)"
  shows "fst (training_setter (dunder_setattr ParameterLike d) d r (VBool b) s) \<noteq> None"
proof (cases "dunder_setattr ParameterLike d r ''_training'' (VBool b) s")
  case (Pair e s1)
  show ?thesis
  proof (cases e)
    case (Some a)
    then show ?thesis using Pair by (simp add: training_setter_def)
  next
    case None
    have "map_option u_modules (registries (mods s1 r)) = Some (u_modules g)"
      using setattr_bool_keeps_modules[of ParameterLike d r "''_training''" b s s1] Pair None init
      by simp
    then obtain g1 where g1: "registries (mods s1 r) = Some g1" "u_modules g1 = u_modules g"
      by auto
    obtain ms err where m: "modules d s1 r False = (ms, err)"
      by (cases "modules d s1 r False")
    obtain e2 s2 where c: "cascade (dunder_setattr ParameterLike d) (VBool b) ms s1 = (e2, s2)"
      by (cases "cascade (dunder_setattr ParameterLike d) (VBool b) ms s1")
    have "e2 \<noteq> None \<or> err \<noteq> None"
    proof (cases "err = None")
      case True
      then have "ms = map snd (u_modules g1)"
        using modules_direct[OF g1(1), of d] m by simp
      then have "None \<in> set ms"
        using absent g1(2) by force
      then show ?thesis
        using cascade_absent[of ms "dunder_setattr ParameterLike d" "VBool b" s1] c by simp
    next
      case False
      then show ?thesis by simp
    qed
    then show ?thesis
      using Pair None m c by (auto simp add: training_setter_def split: option.splits)
  qed
qed

lemma train_absent_child:
  assumes init: "registries (mods s r) = Some g"
    and absent: "(k, None) \<in> set (u_modules g)"
  shows "fst (train ParameterLike d r (VBool b) s) \<noteq> None"
proof (cases d)
  case 0
  then show ?thesis by (simp add: train_def)
next
  case (Suc d1)
  show ?thesis
    unfolding Suc train_def
    using training_setter_absent[OF init absent, of ParameterLike d1 b]
    by (auto simp add: dunder_setattr_body_def object_setattr_def
        split: sum.splits if_splits simp del: getattr.simps)
qed

lemma train_absent_only_child:
  assumes init: "registries (mods s r) = Some g"
    and only: "u_modules g = [(k, None)]"
    and nobuf: "''training'' \<notin> fst ` set (u_buffers g)" "''_training'' \<notin> fst ` set (u_buffers g)"
    and d: "3 \<le> d"
  shows "train ParameterLike d r (VBool b) s =
     (Some (AttributeError (HasNoAttribute ''training'')),
      update_module r (\<lambda>m. m\<lparr>dict := AList.update ''_training'' (VBool b) (dict m)\<rparr>) s)"
proof -
  from d obtain j where j: "d = Suc j" "2 \<le> j"
    by (metis Suc_le_D numeral_3_eq_3 numeral_2_eq_2 Suc_le_mono)
  from j(2) obtain i where i: "j = Suc i"
    using depth2 by blast
  let ?s1 = "update_module r (\<lambda>m. m\<lparr>dict := AList.update ''_training'' (VBool b) (dict m)\<rparr>) s"
  have own: "dunder_setattr ParameterLike j r ''_training'' (VBool b) s = (None, ?s1)"
    by (rule setattr_plain[OF init _ _ nobuf(2) _ _ j(2)])
      (simp_all add: properties_def reserved_def)
  have init1: "registries (mods ?s1 r) = Some g"
    using init by (simp add: update_module_def)
  have ms: "modules j ?s1 r False = ([None], None)"
    using modules_direct_deep[OF init1 j(2)] only by simp
  have "training_setter (dunder_setattr ParameterLike j) j r (VBool b) s
      = (Some (AttributeError (HasNoAttribute ''training'')), ?s1)"
    by (simp add: training_setter_def own ms)
  then show ?thesis
    unfolding train_def j(1)
    using self_buffers_init[OF init, of i] nobuf(1) i
    by (simp add: dunder_setattr_body_def object_setattr_def del: getattr.simps)
qed

lemma for_each_fine:
  "\<forall>x \<in> set xs. snd (body x) = None \<Longrightarrow>
     for_each xs body = (concat (map (\<lambda>x. fst (body x)) xs), None)"
proof (induction xs)
  case Nil
  then show ?case by simp
next
  case (Cons x xs)
  then show ?case by (cases "body x") simp
qed

lemma for_each_until:
  assumes "\<forall>x \<in> set xs. snd (body x) = None" "body y = (zs, Some e)"
  shows "for_each (xs @ y # ys) body = (concat (map (\<lambda>x. fst (body x)) xs) @ zs, Some e)"
  using assms(1)
proof (induction xs)
  case Nil
  then show ?case using assms(2) by simp
next
  case (Cons x xs)
  then show ?case by (cases "body x") simp
qed

lemma named_modules_until_absent:
  assumes init: "registries (mods s r) = Some g"
    and split: "u_modules g = cs @ (k, None) # cs'"
    and fine: "\<forall>(k', c) \<in> set cs.
        c \<noteq> None \<and> snd (named_modules d s (the c) (join_path prefix k') True True) = None"
    and d: "0 < d"
  shows "named_modules (Suc d) s r prefix include_self True =
     ((if include_self then [(prefix, Some r)] else [])
        @ concat (map (\<lambda>(k', c). fst (named_modules d s (the c) (join_path prefix k') True True)) cs),
      Some (AttributeError (HasNoAttribute ''named_modules'')))"
proof -
  from d obtain j where j: "d = Suc j"
    using depth1 by blast
  let ?body = "\<lambda>(key, module).
              let module_prefix = join_path prefix key in
              if True then
                (case module of
                   None \<Rightarrow> ([], Some (AttributeError (HasNoAttribute ''named_modules'')))
                 | Some c \<Rightarrow> named_modules d s c module_prefix True True)
              else ([(module_prefix, module)], None)"
  have b: "\<forall>x \<in> set cs. ?body x = named_modules d s (the (snd x)) (join_path prefix (fst x)) True True"
    using fine by (auto simp add: case_prod_unfold)
  have b1: "\<forall>x \<in> set cs. snd (?body x) = None"
  proof
    fix x assume x: "x \<in> set cs"
    then have "snd (named_modules d s (the (snd x)) (join_path prefix (fst x)) True True) = None"
      using fine by (auto simp add: case_prod_unfold)
    then show "snd (?body x) = None"
      using b x by simp
  qed
  have b2: "?body (k, None) = ([], Some (AttributeError (HasNoAttribute ''named_modules'')))"
    by simp
  have "for_each (cs @ (k, None) # cs') ?body =
      (concat (map (\<lambda>x. fst (?body x)) cs) @ [], Some (AttributeError (HasNoAttribute ''named_modules'')))"
    using for_each_until[where body="?body" and xs=cs and y="(k, None)" and zs="[]"
        and e="AttributeError (HasNoAttribute ''named_modules'')" and ys=cs', OF b1 b2] .
  moreover have "map (\<lambda>x. fst (?body x)) cs
      = map (\<lambda>(k', c). fst (named_modules d s (the c) (join_path prefix k') True True)) cs"
    using b by (auto simp add: case_prod_unfold)
  moreover have "self_modules d (mods s r) = Inr (cs @ (k, None) # cs')"
    unfolding j using self_modules_init[OF init, of j] split by simp
  ultimately show ?thesis
    by (simp del: named_modules.simps getattr.simps map_eq_conv
        add: named_modules.simps(2)[where d=d and r=r])
qed


text \<open>
  Claim C9. \<^verbatim>\<open>add_module(name, None)\<close> on an initialised component succeeds and puts
  the absent child last in the child registry. From then on every traversal of the
  component with \<^verbatim>\<open>include_children=True\<close> ends with an exception, and so does
  every \<^verbatim>\<open>train(True)\<close> or \<^verbatim>\<open>train(False)\<close>, at any stack depth. When the children
  before the absent one are traversed without exception, the traversal yields the
  component and what those children yield and then raises \<^verbatim>\<open>AttributeError\<close> at the
  absent child; when the absent child is the only child, \<^verbatim>\<open>train\<close> sets the flag of
  the component itself and then raises \<^verbatim>\<open>AttributeError\<close>.
\<close>

theorem absent_child_raises:
  assumes init: "registries (mods s r) = Some g"
    and valid: "name \<noteq> []" "CHR ''.'' \<notin> set name"
    and new: "name \<notin> fst ` set (u_modules g)"
    and d: "0 < d"
    and s': "s' = snd (add_module d r name VNone s)"
  shows "fst (add_module d r name VNone s) = None
    \<and> map_option u_modules (registries (mods s' r)) = Some (u_modules g @ [(name, None)])
    \<and> snd (named_modules d' s' r prefix include_self True) \<noteq> None
    \<and> fst (train ParameterLike d' r (VBool b) s') \<noteq> None
    \<and> (0 < d' \<and> (\<forall>(k, c) \<in> set (u_modules g). c \<noteq> None
            \<and> snd (named_modules d' s' (the c) (join_path prefix k) True True) = None) \<longrightarrow>
         named_modules (Suc d') s' r prefix include_self True =
           ((if include_self then [(prefix, Some r)] else [])
              @ concat (map (\<lambda>(k, c).
                  fst (named_modules d' s' (the c) (join_path prefix k) True True)) (u_modules g)),
            Some (AttributeError (HasNoAttribute ''named_modules''))))
    \<and> (3 \<le> d' \<and> u_modules g = [] \<and> ''training'' \<notin> fst ` set (u_buffers g)
          \<and> ''_training'' \<notin> fst ` set (u_buffers g) \<longrightarrow>
         train ParameterLike d' r (VBool b) s' =
           (Some (AttributeError (HasNoAttribute ''training'')),
            update_module r (\<lambda>m. m\<lparr>dict := AList.update ''_training'' (VBool b) (dict m)\<rparr>) s'))"
proof -
  let ?g = "g\<lparr>u_modules := u_modules g @ [(name, None)]\<rparr>"
  have add: "add_module d r name VNone s =
      (None, update_registries r (\<lambda>g'. g'\<lparr>u_modules := u_modules g @ [(name, None)]\<rparr>) s)"
    by (rule add_module_init[OF init valid _ new d]) simp
  have init': "registries (mods s' r) = Some ?g"
    unfolding s' add using init by (simp add: update_registries_def update_module_def)
  have absent: "(name, None) \<in> set (u_modules ?g)"
    by simp
  have 1: "snd (named_modules d' s' r prefix include_self True) \<noteq> None"
    by (rule named_modules_absent_child[OF init' absent])
  have 2: "fst (train ParameterLike d' r (VBool b) s') \<noteq> None"
    by (rule train_absent_child[OF init' absent])
  have 3: "named_modules (Suc d') s' r prefix include_self True =
           ((if include_self then [(prefix, Some r)] else [])
              @ concat (map (\<lambda>(k, c).
                  fst (named_modules d' s' (the c) (join_path prefix k) True True)) (u_modules g)),
            Some (AttributeError (HasNoAttribute ''named_modules'')))"
    if "0 < d'" "\<forall>(k, c) \<in> set (u_modules g). c \<noteq> None
            \<and> snd (named_modules d' s' (the c) (join_path prefix k) True True) = None"
    by (rule named_modules_until_absent[OF init' _ that(2) that(1), where k=name and cs'="[]"])
      simp
  have 4: "train ParameterLike d' r (VBool b) s' =
           (Some (AttributeError (HasNoAttribute ''training'')),
            update_module r (\<lambda>m. m\<lparr>dict := AList.update ''_training'' (VBool b) (dict m)\<rparr>) s')"
    if "3 \<le> d'" "u_modules g = []" "''training'' \<notin> fst ` set (u_buffers g)"
      "''_training'' \<notin> fst ` set (u_buffers g)"
    by (rule train_absent_only_child[OF init' _ _ _ that(1), where k=name])
      (use that in simp_all)
  show ?thesis
    using add init' 1 2 3 4 by simp
qed

theorem absent_child_raises_witness:
  "fst (add_module 3 1 ''D'' VNone scenario) = None
   \<and> named_modules 4 (snd (add_module 3 1 ''D'' VNone scenario)) 1 ''C'' True True
       = ([(''C'', Some 1)], Some (AttributeError (HasNoAttribute ''named_modules'')))
   \<and> fst (train parameter_like 3 1 (VBool True) (snd (add_module 3 1 ''D'' VNone scenario)))
       = Some (AttributeError (HasNoAttribute ''training''))"
  using absent_child_raises [where s=scenario and r=1 and g="the (registries module_C)"
      and name="''D''" and d=3 and s'="snd (add_module 3 1 ''D'' VNone scenario)" and d'=3
      and prefix="''C''" and include_self=True and b=True and ParameterLike=parameter_like]
  by (simp add: scenario_mods module_C_def)

section \<open>Traversal of a component tree\<close>

lemma for_each_map: "for_each (map f xs) body = for_each xs (\<lambda>x. body (f x))"
  by (induction xs) simp_all

lemma height_child: "(k, t) \<in> set ts \<Longrightarrow> height t \<le> foldr max (map (\<lambda>(k, t). height t) ts) 0"
  by (induction ts) auto

lemma named_modules_tree:
  "shape s t \<Longrightarrow> height t < d \<Longrightarrow>
     named_modules d s (root t) prefix True True = (enumerateComponents prefix t, None)"
proof (induction "prefix" t arbitrary: d rule: enumerateComponents.induct)
  case (1 p r ts)
  from "1.prems"(2) obtain j where j: "d = Suc (Suc j)" "foldr max (map (\<lambda>(k, t). height t) ts) 0 \<le> j"
    by (cases d; cases "d - 1") auto
  from "1.prems"(1) obtain g where g: "registries (mods s r) = Some g"
    "u_modules g = map (\<lambda>(k, t). (k, Some (root t))) ts" "\<forall>(k, t) \<in> set ts. shape s t"
    by (auto split: option.splits)
  let ?body = "\<lambda>x. named_modules (Suc j) s (root (snd x)) (join_path p (fst x)) True True"
  have child: "?body x = (enumerateComponents (join_path p (fst x)) (snd x), None)"
    if "x \<in> set ts" for x
  proof -
    have in_ts: "(fst x, snd x) \<in> set ts" using that by simp
    have h: "height (snd x) < Suc j"
      using height_child[OF in_ts] j(2) by simp
    have sh: "shape s (snd x)" using g(3) in_ts by blast
    show ?thesis
      by (rule "1.IH"[OF that _ sh h]) simp
  qed
  have "for_each ts ?body = (concat (map (\<lambda>x. fst (?body x)) ts), None)"
    by (rule for_each_fine) (simp add: child del: named_modules.simps)
  moreover have "map (\<lambda>x. fst (?body x)) ts
      = map (\<lambda>(k, t). enumerateComponents (join_path p k) t) ts"
    by (rule map_cong) (auto simp add: child simp del: named_modules.simps)
  moreover have "self_modules (Suc j) (mods s r) = Inr (map (\<lambda>(k, t). (k, Some (root t))) ts)"
    using self_modules_init[OF g(1), of j] g(2) by simp
  ultimately show ?case
    by (simp del: named_modules.simps getattr.simps map_eq_conv
        add: j(1) named_modules.simps(2)[where d="Suc j" and r=r] for_each_map case_prod_unfold)
qed

lemma enumerate_refs: "map snd (enumerateComponents prefix t) = map Some (refs t)"
  by (induction "prefix" t rule: enumerateComponents.induct)
    (auto simp add: map_concat comp_def case_prod_unfold intro!: arg_cong[where f=concat])

lemma enumerate_paths:
  "map fst (enumerateComponents prefix t) = map (foldl join_path prefix) (name_lists t)"
proof (induction "prefix" t rule: enumerateComponents.induct)
  case (1 p r ts)
  have "map fst (enumerateComponents (join_path p (fst x)) (snd x))
      = map (\<lambda>ks. foldl join_path (join_path p (fst x)) ks) (name_lists (snd x))"
    if "x \<in> set ts" for x
    using "1.IH"[OF that, of "fst x" "snd x"] by simp
  then show ?case
    by (simp add: map_concat comp_def case_prod_unfold cong: map_cong)
qed

lemma name_lists_valid:
  "valid_names t \<Longrightarrow> ks \<in> set (name_lists t) \<Longrightarrow> k \<in> set ks \<Longrightarrow> k \<noteq> [] \<and> CHR ''.'' \<notin> set k"
proof (induction t arbitrary: ks rule: name_lists.induct)
  case (1 r ts)
  from "1.prems"(2,3) obtain x ks' where x: "x \<in> set ts" "ks = fst x # ks'" "ks' \<in> set (name_lists (snd x))"
    by (auto simp add: case_prod_unfold)
  have v: "fst x \<noteq> [] \<and> CHR ''.'' \<notin> set (fst x) \<and> valid_names (snd x)"
    using "1.prems"(1) x(1) by (auto simp add: case_prod_unfold)
  show ?case
  proof (cases "k = fst x")
    case True
    then show ?thesis using v by simp
  next
    case False
    then have "k \<in> set ks'" using "1.prems"(3) x(2) by simp
    then show ?thesis
      using "1.IH"[OF x(1) _ _ x(3), of "fst x"] v by simp
  qed
qed

lemma heads_of_children:
  "ks \<in> set (concat (map (\<lambda>(k, t). map ((#) k) (name_lists t)) ts)) \<Longrightarrow>
     \<exists>k ks'. ks = k # ks' \<and> k \<in> fst ` set ts"
  by (induction ts) auto

lemma distinct_children:
  "distinct (map fst ts) \<Longrightarrow> (\<forall>(k, t) \<in> set ts. distinct (name_lists t)) \<Longrightarrow>
     distinct (concat (map (\<lambda>(k, t). map ((#) k) (name_lists t)) ts))"
proof (induction ts)
  case Nil
  then show ?case by simp
next
  case (Cons x ts)
  obtain k t where x: "x = (k, t)" by (cases x)
  have "distinct (map ((#) k) (name_lists t))"
    using Cons.prems(2) x by (simp add: distinct_map)
  moreover have "set (map ((#) k) (name_lists t))
      \<inter> set (concat (map (\<lambda>(k, t). map ((#) k) (name_lists t)) ts)) = {}"
  proof -
    have "k \<notin> fst ` set ts" using Cons.prems(1) x by simp
    then show ?thesis
      using heads_of_children[of _ ts] by fastforce
  qed
  moreover have "distinct (concat (map (\<lambda>(k, t). map ((#) k) (name_lists t)) ts))"
    using Cons by simp
  ultimately show ?case using x by simp
qed

lemma name_lists_distinct: "valid_names t \<Longrightarrow> distinct (name_lists t)"
proof (induction t rule: name_lists.induct)
  case (1 r ts)
  have "\<forall>(k, t) \<in> set ts. distinct (name_lists t)"
    using 1 by (auto simp add: case_prod_unfold)
  then have "distinct (concat (map (\<lambda>(k, t). map ((#) k) (name_lists t)) ts))"
    using distinct_children[of ts] "1.prems" by simp
  moreover have "[] \<notin> set (concat (map (\<lambda>(k, t). map ((#) k) (name_lists t)) ts))"
    using heads_of_children[of "[]" ts] by blast
  ultimately show ?case by simp
qed

lemma foldl_join_path:
  "p \<noteq> [] \<Longrightarrow> foldl join_path p ks = p @ concat (map ((#) CHR ''.'') ks)"
  by (induction ks arbitrary: p) (simp_all add: join_path_def)

lemma path_of_names:
  "k \<noteq> [] \<Longrightarrow> foldl join_path [] (k # ks) = k @ concat (map ((#) CHR ''.'') ks)"
  using foldl_join_path[of k ks] by (simp add: join_path_def)

lemma split_on_not_Nil: "split_on c xs \<noteq> []"
  by (induction xs) (auto split: list.splits)

lemma split_on_no_sep: "c \<notin> set k \<Longrightarrow> split_on c k = [k]"
  by (induction k) auto

lemma split_on_sep: "c \<notin> set k \<Longrightarrow> split_on c (k @ c # rest) = k # split_on c rest"
  by (induction k) (auto simp add: split_on_not_Nil split: list.splits)

lemma split_on_path:
  "c \<notin> set k \<Longrightarrow> \<forall>k' \<in> set ks. c \<notin> set k' \<Longrightarrow>
     split_on c (k @ concat (map ((#) c) ks)) = k # ks"
proof (induction ks arbitrary: k)
  case Nil
  then show ?case by (simp add: split_on_no_sep)
next
  case (Cons k' ks)
  have "split_on c (k @ c # (k' @ concat (map ((#) c) ks))) = k # split_on c (k' @ concat (map ((#) c) ks))"
    by (rule split_on_sep[OF Cons.prems(1)])
  then show ?case using Cons by simp
qed

lemma path_of_names_inj:
  assumes v: "\<forall>k \<in> set ks. k \<noteq> [] \<and> CHR ''.'' \<notin> set k"
    and v': "\<forall>k \<in> set ks'. k \<noteq> [] \<and> CHR ''.'' \<notin> set k"
    and eq: "foldl join_path [] ks = foldl join_path [] ks'"
  shows "ks = ks'"
proof -
  have empty: "foldl join_path [] xs = [] \<longleftrightarrow> xs = []"
    if "\<forall>k \<in> set xs. k \<noteq> [] \<and> CHR ''.'' \<notin> set k" for xs
  proof (cases xs)
    case Nil
    then show ?thesis by simp
  next
    case (Cons x xs')
    then have "x \<noteq> []" using that by simp
    then have "foldl join_path [] (x # xs') = x @ concat (map ((#) CHR ''.'') xs')"
      by (rule path_of_names)
    then show ?thesis using Cons \<open>x \<noteq> []\<close> by simp
  qed
  have parts: "split_on CHR ''.'' (foldl join_path [] xs) = xs"
    if "\<forall>k \<in> set xs. k \<noteq> [] \<and> CHR ''.'' \<notin> set k" "xs \<noteq> []" for xs
  proof -
    from that(2) obtain x xs' where x: "xs = x # xs'" by (cases xs) auto
    have 1: "foldl join_path [] (x # xs') = x @ concat (map ((#) CHR ''.'') xs')"
      by (rule path_of_names) (use that(1) x in simp)
    have 2: "split_on CHR ''.'' (x @ concat (map ((#) CHR ''.'') xs')) = x # xs'"
      by (rule split_on_path) (use that(1) x in simp_all)
    show ?thesis unfolding x 1 2 ..
  qed
  show ?thesis
  proof (cases "ks = []")
    case True
    then have "foldl join_path [] ks' = []" using eq by simp
    then have "ks' = []" using empty[OF v'] by blast
    then show ?thesis using True by simp
  next
    case False
    then have "foldl join_path [] ks \<noteq> []" using empty[OF v] by blast
    then have "foldl join_path [] ks' \<noteq> []" unfolding eq .
    then have ne: "ks' \<noteq> []" by auto
    have "split_on CHR ''.'' (foldl join_path [] ks) = split_on CHR ''.'' (foldl join_path [] ks')"
      unfolding eq ..
    then show ?thesis
      unfolding parts[OF v False] parts[OF v' ne] .
  qed
qed

lemma enumerate_paths_distinct:
  assumes "valid_names t"
  shows "distinct (map fst (enumerateComponents [] t))"
proof -
  have "inj_on (foldl join_path []) (set (name_lists t))"
  proof (rule inj_onI)
    fix ks ks'
    assume a: "ks \<in> set (name_lists t)" "ks' \<in> set (name_lists t)"
      "foldl join_path [] ks = foldl join_path [] ks'"
    show "ks = ks'"
      by (rule path_of_names_inj[OF _ _ a(3)])
        (use name_lists_valid[OF assms a(1)] name_lists_valid[OF assms a(2)] in blast)+
  qed
  then show ?thesis
    using name_lists_distinct[OF assms] by (simp add: enumerate_paths distinct_map)
qed

lemma initialised_pair_mods:
  "mods initialised_pair 0 =
     \<lparr>cls_name = ''Module'', cls_attrs = [],
      registries = Some \<lparr>u_parameters = [], u_modules = [], u_buffers = []\<rparr>,
      dict = [(''_training'', VBool False)]\<rparr>"
  "mods initialised_pair (Suc 0) =
     \<lparr>cls_name = ''Module'', cls_attrs = [],
      registries = Some \<lparr>u_parameters = [], u_modules = [], u_buffers = []\<rparr>,
      dict = [(''_training'', VBool False)]\<rparr>"
  by (simp_all add: initialised_pair_def dunder_init_def update_module_def blank_def)

lemma gapped_mods:
  "mods gapped 0 =
     \<lparr>cls_name = ''Module'', cls_attrs = [],
      registries = Some \<lparr>u_parameters = [], u_modules = [(''D'', None), (''C'', Some 1)],
                         u_buffers = []\<rparr>,
      dict = [(''_training'', VBool False)]\<rparr>"
  "mods gapped (Suc 0) =
     \<lparr>cls_name = ''Module'', cls_attrs = [],
      registries = Some \<lparr>u_parameters = [], u_modules = [], u_buffers = []\<rparr>,
      dict = [(''_training'', VBool False)]\<rparr>"
proof -
  let ?s1 = "update_registries 0 (\<lambda>g'. g'\<lparr>u_modules := [] @ [(''D'', None)]\<rparr>) initialised_pair"
  let ?s2 = "update_registries 0 (\<lambda>g'. g'\<lparr>u_modules := [(''D'', None)] @ [(''C'', Some 1)]\<rparr>) ?s1"
  have 1: "add_module 3 0 ''D'' VNone initialised_pair = (None, ?s1)"
    using add_module_init
      [where s=initialised_pair and r=0 and n="''D''" and v=VNone and c=None and d=3
        and g="\<lparr>u_parameters = [], u_modules = [], u_buffers = []\<rparr>"]
    by (simp add: initialised_pair_mods)
  have 2: "add_module 3 0 ''C'' (VModule 1) ?s1 = (None, ?s2)"
    using add_module_init
      [where s="?s1" and r=0 and n="''C''" and v="VModule 1" and c="Some 1" and d=3
        and g="\<lparr>u_parameters = [], u_modules = [(''D'', None)], u_buffers = []\<rparr>"]
    by (simp add: initialised_pair_mods update_registries_def update_module_def)
  have g: "gapped = ?s2"
    unfolding gapped_def 1 snd_conv 2 ..
  show "mods gapped 0 =
     \<lparr>cls_name = ''Module'', cls_attrs = [],
      registries = Some \<lparr>u_parameters = [], u_modules = [(''D'', None), (''C'', Some 1)],
                         u_buffers = []\<rparr>,
      dict = [(''_training'', VBool False)]\<rparr>"
    unfolding g by (simp add: update_registries_def update_module_def initialised_pair_mods)
  show "mods gapped (Suc 0) =
     \<lparr>cls_name = ''Module'', cls_attrs = [],
      registries = Some \<lparr>u_parameters = [], u_modules = [], u_buffers = []\<rparr>,
      dict = [(''_training'', VBool False)]\<rparr>"
    unfolding g by (simp add: update_registries_def update_module_def initialised_pair_mods)
qed

lemma gapped_traversal:
  "0 < d \<Longrightarrow> named_modules (Suc d) gapped 0 [] True True =
     ([([], Some 0)], Some (AttributeError (HasNoAttribute ''named_modules'')))"
  using named_modules_until_absent
    [where s=gapped and r=0 and cs="[]" and k="''D''" and cs'="[(''C'', Some 1)]" and d=d
      and prefix="[]" and include_self=True
      and g="\<lparr>u_parameters = [], u_modules = [(''D'', None), (''C'', Some 1)], u_buffers = []\<rparr>"]
  by (simp add: gapped_mods)

text \<open>
  Claim C2, as stated, fails. The store \<open>gapped\<close> is built by the registration calls
  alone. Its root has the absent slot \<^verbatim>\<open>D\<close> and then the child \<^verbatim>\<open>C\<close>, an initialised
  component without children: a tree of two components without a cycle. The
  traversal yields the root, one pair for two components, and ends with
  \<^verbatim>\<open>AttributeError\<close> at the absent slot, with five frames of stack as with a thousand.
\<close>

theorem named_modules_component_tree_counterexample:
  "map_option u_modules (registries (mods gapped 0)) = Some [(''D'', None), (''C'', Some 1)]
   \<and> map_option u_modules (registries (mods gapped 1)) = Some []
   \<and> named_modules 5 gapped 0 [] True True
       = ([([], Some 0)], Some (AttributeError (HasNoAttribute ''named_modules'')))
   \<and> named_modules 1000 gapped 0 [] True True
       = ([([], Some 0)], Some (AttributeError (HasNoAttribute ''named_modules'')))
   \<and> length (fst (named_modules 1000 gapped 0 [] True True)) \<noteq> 2"
proof -
  have "named_modules (Suc 4) gapped 0 [] True True
       = ([([], Some 0)], Some (AttributeError (HasNoAttribute ''named_modules'')))"
    by (rule gapped_traversal) simp
  moreover have "named_modules (Suc 999) gapped 0 [] True True
       = ([([], Some 0)], Some (AttributeError (HasNoAttribute ''named_modules'')))"
    by (rule gapped_traversal) simp
  moreover have "Suc 4 = 5" "Suc 999 = 1000"
    by simp_all
  ultimately show ?thesis
    by (simp add: gapped_mods del: named_modules.simps)
qed

text \<open>
  Claim C2, amended. For a component tree (every child slot holds a component, the child
  names of a component are distinct, non-empty and free of dots, and no component
  occurs twice) and a stack deeper than the tree, the traversal from the root with
  \<^verbatim>\<open>include_self=True\<close> and \<^verbatim>\<open>include_children=True\<close> ends without exception. It
  yields the root first, under the empty path; it yields no path twice; it yields the
  components depth-first, children in registration order; and it yields as many
  pairs as the tree has components.
\<close>

theorem named_modules_component_tree:
  assumes tree: "component_tree s t" and d: "height t < d"
  shows "snd (named_modules d s (root t) [] True True) = None
    \<and> fst (named_modules d s (root t) [] True True) = enumerateComponents [] t
    \<and> hd (fst (named_modules d s (root t) [] True True)) = ([], Some (root t))
    \<and> distinct (map fst (fst (named_modules d s (root t) [] True True)))
    \<and> map snd (fst (named_modules d s (root t) [] True True)) = map Some (refs t)
    \<and> length (fst (named_modules d s (root t) [] True True)) = card (set (refs t))"
proof -
  have run: "named_modules d s (root t) [] True True = (enumerateComponents [] t, None)"
    using tree d by (simp add: component_tree_def named_modules_tree)
  have first: "hd (enumerateComponents [] t) = ([], Some (root t))"
    by (cases t) simp
  have paths: "distinct (map fst (enumerateComponents [] t))"
    using tree by (simp add: component_tree_def enumerate_paths_distinct)
  have "length (enumerateComponents [] t) = length (refs t)"
    using enumerate_refs[of "[]" t] by (metis length_map)
  then have count: "length (enumerateComponents [] t) = card (set (refs t))"
    using tree by (simp add: component_tree_def distinct_card)
  show ?thesis
    unfolding run fst_conv snd_conv
    using first paths count enumerate_refs[of "[]" t] by simp
qed

lemma scenario_component_tree: "component_tree scenario scenario_tree"
  by (simp add: component_tree_def scenario_tree_def scenario_mods module_R_def module_C_def)

theorem named_modules_component_tree_witness:
  "component_tree scenario scenario_tree \<and> height scenario_tree < 3
   \<and> named_modules 3 scenario 0 [] True True = ([([], Some 0), (''C'', Some 1)], None)
   \<and> card (set (refs scenario_tree)) = 2"
  using named_modules_component_tree [of scenario scenario_tree 3] scenario_component_tree
  by (cases "named_modules 3 scenario 0 [] True True")
    (simp add: scenario_tree_def join_path_def)

end
